theory Spec2Isabelle
  imports Main "HOL-Library.Sublist"
begin

section \<open>JavaScript strings\<close>

text \<open>
  A JavaScript string is a sequence of UTF-16 code units. It is modelled by \<open>string\<close>
  (a list of characters); a character stands for a code unit below 256. \<open>length\<close> is the
  \<open>.length\<close> of the source, \<open>take n\<close> is \<open>.slice(0, n)\<close> for \<open>0 \<le> n\<close>, and \<open>@\<close> is \<open>+\<close>.
\<close>

definition isWhiteSpace :: "char \<Rightarrow> bool" where
  \<comment> \<open>White space and line terminators of ECMAScript below 256: TAB, LF, VT, FF, CR, SP, NBSP.\<close>
  "isWhiteSpace c = (c \<in> set [CHR 0x09, CHR 0x0A, CHR 0x0B, CHR 0x0C, CHR 0x0D, CHR 0x20, CHR 0xA0])"

definition trim :: "string \<Rightarrow> string" where
  \<comment> \<open>\<open>String.prototype.trim\<close>\<close>
  "trim s = rev (dropWhile isWhiteSpace (rev (dropWhile isWhiteSpace s)))"

definition lowerChar :: "char \<Rightarrow> char" where
  \<comment> \<open>Lower-casing of one code unit below 256: A..Z, and the Latin-1 capitals but the times sign.\<close>
  "lowerChar c =
     (let n = (of_char c :: nat)
      in if (65 \<le> n \<and> n \<le> 90) \<or> (192 \<le> n \<and> n \<le> 222 \<and> n \<noteq> 215) then char_of (n + 32) else c)"

definition toLowerCase :: "string \<Rightarrow> string" where
  "toLowerCase s = map lowerChar s"

definition startsWith :: "string \<Rightarrow> string \<Rightarrow> bool" where
  \<comment> \<open>\<open>s.startsWith(p)\<close>\<close>
  "startsWith s p = prefix p s"

fun includes_str :: "string \<Rightarrow> string \<Rightarrow> bool" where
  \<comment> \<open>\<open>s.includes(p)\<close>, which is \<open>s.indexOf(p) >= 0\<close>: \<open>p\<close> occurs in \<open>s\<close> at some position.\<close>
  "includes_str [] p = (p = [])"
| "includes_str (c # cs) p = (prefix p (c # cs) \<or> includes_str cs p)"

section \<open>The model-suggestion heuristic\<close>

datatype suggestion = simple | complex

definition complexKeywords :: "string list" where
  "complexKeywords =
     [''step by step'', ''explain in detail'', ''compare and contrast'', ''analyze'', ''write code'',
      ''implement'', ''debug'', ''function that'', ''essay'', ''outline'', ''compare'', ''contrast'',
      ''pros and cons'', ''critically'', ''reasoning'', ''proof'', ''derive'', ''algorithm'']"

definition suggestModelFromContent :: "string \<Rightarrow> bool \<Rightarrow> suggestion" where
  "suggestModelFromContent text' hasAttachments =
     (let t = toLowerCase (trim text')
      in if length t > 400 then complex
         else if hasAttachments then complex
         else if list_ex (includes_str t) complexKeywords then complex
         else simple)"

section \<open>Attachments\<close>

text \<open>What the extractor reads of a browser \<open>File\<close>: its name, declared type and size in bytes.\<close>

record File =
  file_name :: string
  file_type :: string
  file_size :: nat

text \<open>\<open>IChatAttachment\<close>: an attachment prepared for the next send.\<close>

record attachment =
  att_file :: File
  dataUrl :: "string option"
  textContent :: "string option"
  extractionError :: "string option"

text \<open>
  A thrown value: an \<open>Error\<close> object with its \<open>name\<close> and \<open>message\<close>, or anything else.
  \<open>new Error(msg)\<close> has the name \<open>Error\<close>.
\<close>

datatype thrown = ErrorObj string string | OtherThrown

definition newError :: "string \<Rightarrow> thrown" where
  "newError msg = ErrorObj ''Error'' msg"

text \<open>
  The decoders (\<open>FileReader\<close>, PDF.js, mammoth, SheetJS) are outside the repository: they are
  parameters, each a function from the file to the text it resolves to or the value it rejects
  with.
\<close>

record decoders =
  fileToDataUrl :: "File \<Rightarrow> thrown + string"
  fileToText :: "File \<Rightarrow> thrown + string"
  pdfToText :: "File \<Rightarrow> thrown + string"
  docxToText :: "File \<Rightarrow> thrown + string"
  xlsxToText :: "File \<Rightarrow> thrown + string"

definition MAX_FILES_PER_MESSAGE :: nat where "MAX_FILES_PER_MESSAGE = 10"
definition MAX_IMAGE_SIZE_MB :: nat where "MAX_IMAGE_SIZE_MB = 4"
definition MAX_FILE_SIZE_MB :: nat where "MAX_FILE_SIZE_MB = 10"
definition MAX_TOTAL_TEXT_CHARS :: nat where "MAX_TOTAL_TEXT_CHARS = 80000"

definition truncationMarker :: string where
  \<comment> \<open>The literal \<open>'\n...[truncated]'\<close>\<close>
  "truncationMarker = CHR 0x0A # ''...[truncated]''"

definition endsWith :: "string \<Rightarrow> string \<Rightarrow> bool" where
  "endsWith s p = suffix p s"

definition lastIndexOf :: "string \<Rightarrow> char \<Rightarrow> int" where
  \<comment> \<open>\<open>s.lastIndexOf(c)\<close>: the last position of \<open>c\<close>, or -1\<close>
  "lastIndexOf s c =
     (if c \<in> set s then int (length s) - 1 - int (length (takeWhile (\<lambda>x. x \<noteq> c) (rev s))) else - 1)"

definition sliceFrom :: "string \<Rightarrow> int \<Rightarrow> string" where
  \<comment> \<open>\<open>s.slice(k)\<close>: a negative \<open>k\<close> counts from the end\<close>
  "sliceFrom s k = (if k < 0 then drop (nat (int (length s) + k)) s else drop (nat k) s)"

definition isImageFile :: "File \<Rightarrow> bool" where
  "isImageFile f = startsWith (file_type f) ''image/''"

definition textExtensions :: "string list" where
  "textExtensions =
     [''.txt'', ''.md'', ''.csv'', ''.tsv'', ''.json'', ''.html'', ''.htm'', ''.xml'', ''.js'', ''.ts'',
      ''.tsx'', ''.jsx'', ''.log'', ''.yml'', ''.yaml'', ''.ini'', ''.cfg'', ''.conf'', ''.env'',
      ''.properties'', ''.sql'', ''.rtf'', ''.csv'', ''.tex'', ''.rst'', ''.asciidoc'', ''.adoc'']"

definition isLikelyTextFile :: "File \<Rightarrow> bool" where
  "isLikelyTextFile f =
     (let t = toLowerCase (file_type f); name = toLowerCase (file_name f)
      in if startsWith t ''text/'' \<or> t = ''application/json'' \<or> t = ''application/javascript''
            \<or> t = ''application/xml'' \<or> t = ''application/rtf'' then True
         else let ext = sliceFrom name (lastIndexOf name CHR ''.'') in ext \<in> set textExtensions)"

definition isPdfFile :: "File \<Rightarrow> bool" where
  "isPdfFile f = (file_type f = ''application/pdf'' \<or> endsWith (toLowerCase (file_name f)) ''.pdf'')"

definition isDocxFile :: "File \<Rightarrow> bool" where
  "isDocxFile f =
     (let t = toLowerCase (file_type f); name = toLowerCase (file_name f)
      in t = ''application/vnd.openxmlformats-officedocument.wordprocessingml.document''
         \<or> endsWith name ''.docx'')"

definition isXlsxFile :: "File \<Rightarrow> bool" where
  "isXlsxFile f =
     (let t = toLowerCase (file_type f); name = toLowerCase (file_name f)
      in t = ''application/vnd.openxmlformats-officedocument.spreadsheetml.sheet''
         \<or> endsWith name ''.xlsx'' \<or> endsWith name ''.xls'')"

definition bare :: "File \<Rightarrow> attachment" where
  \<comment> \<open>The object literal \<open>{ file }\<close>\<close>
  "bare f = \<lparr>att_file = f, dataUrl = None, textContent = None, extractionError = None\<rparr>"

definition caught :: "File \<Rightarrow> thrown \<Rightarrow> attachment" where
  \<comment> \<open>The \<open>catch\<close> of one file: the file is kept, with the message of the error\<close>
  "caught f err =
     (bare f)\<lparr>extractionError :=
        Some (case err of ErrorObj _ msg \<Rightarrow> msg | OtherThrown \<Rightarrow> ''Could not extract text'')\<rparr>"

definition truncateToBudget :: "string \<Rightarrow> nat \<Rightarrow> string" where
  \<comment> \<open>The expression the four document branches of \<open>onFileChange\<close> share:
      \<open>text.length > MAX - totalChars ? text.slice(0, MAX - totalChars) + marker : text\<close>.
      It is evaluated under \<open>totalChars < MAX\<close> only, where the subtraction is positive.\<close>
  "truncateToBudget text' totalChars =
     (if length text' > MAX_TOTAL_TEXT_CHARS - totalChars
      then take (MAX_TOTAL_TEXT_CHARS - totalChars) text' @ truncationMarker
      else text')"

definition textBranch :: "(File \<Rightarrow> thrown + string) \<Rightarrow> File \<Rightarrow> nat \<Rightarrow> attachment \<times> nat" where
  \<comment> \<open>One document branch: decode, truncate, add to the running total, push\<close>
  "textBranch decode f totalChars =
     (case decode f of
        Inl err \<Rightarrow> (caught f err, totalChars)
      | Inr text' \<Rightarrow>
          let truncated = truncateToBudget text' totalChars
          in ((bare f)\<lparr>textContent := Some truncated\<rparr>, totalChars + length truncated))"

definition extractOne :: "decoders \<Rightarrow> File \<Rightarrow> nat \<Rightarrow> attachment \<times> nat" where
  \<comment> \<open>The body of the inner \<open>try\<close> for one file that passed the size check: the attachment
      pushed and the running total after it\<close>
  "extractOne d f totalChars =
     (if isImageFile f then
        (case fileToDataUrl d f of
           Inl err \<Rightarrow> (caught f err, totalChars)
         | Inr url \<Rightarrow> ((bare f)\<lparr>dataUrl := Some url\<rparr>, totalChars))
      else if isPdfFile f \<and> totalChars < MAX_TOTAL_TEXT_CHARS then textBranch (pdfToText d) f totalChars
      else if isDocxFile f \<and> totalChars < MAX_TOTAL_TEXT_CHARS then textBranch (docxToText d) f totalChars
      else if isXlsxFile f \<and> totalChars < MAX_TOTAL_TEXT_CHARS then textBranch (xlsxToText d) f totalChars
      else if isLikelyTextFile f \<and> totalChars < MAX_TOTAL_TEXT_CHARS then textBranch (fileToText d) f totalChars
      else (bare f, totalChars))"

fun extractLoop :: "decoders \<Rightarrow> File list \<Rightarrow> attachment list \<Rightarrow> nat \<Rightarrow> attachment list \<times> nat" where
  \<comment> \<open>The \<open>for\<close> loop over the remaining files, with the list built so far and \<open>totalChars\<close>\<close>
  "extractLoop d [] list' totalChars = (list', totalChars)"
| "extractLoop d (f # fs) list' totalChars =
     (if \<not> length list' < MAX_FILES_PER_MESSAGE then (list', totalChars)
      else if file_size f >
                (if isImageFile f then MAX_IMAGE_SIZE_MB * 1024 * 1024 else MAX_FILE_SIZE_MB * 1024 * 1024)
      then extractLoop d fs list' totalChars
      else let (a, totalChars') = extractOne d f totalChars
           in extractLoop d fs (list' @ [a]) totalChars')"

definition noFilesAdded :: string where
  \<comment> \<open>The message of the source, its two less-or-equal signs written \<open><=\<close>\<close>
  "noFilesAdded = ''No files were added. Check size limits (images <=4 MB, other files <=10 MB) or try different files.''"

definition onFileChange ::
  "decoders \<Rightarrow> File list \<Rightarrow> attachment list \<times> string option \<Rightarrow> attachment list \<times> string option" where
  \<comment> \<open>The handler on the component's \<open>attachments\<close> and \<open>error\<close>, the two state variables it sets\<close>
  "onFileChange d files = (\<lambda>(prev, err).
     if files = [] then (prev, err)
     else let list' = fst (extractLoop d files [] 0)
          in if length list' > 0 then (take MAX_FILES_PER_MESSAGE (prev @ list'), None)
             else (prev, Some noFilesAdded))"

definition textLength :: "attachment \<Rightarrow> nat" where
  \<comment> \<open>The length of the extracted text an attachment carries\<close>
  "textLength a = (case textContent a of None \<Rightarrow> 0 | Some t \<Rightarrow> length t)"

text \<open>
  The vocabulary of the budget invariant: \<open>decodedBy\<close> says that a text is what one of the four
  document decoders returned for the file; \<open>stepOk\<close> says, of an attachment pushed when the running
  total was \<open>tot\<close>, that it carries text only if the total was below the budget, and then the
  decoded text truncated to what was left; \<open>runningOk\<close> says it of every attachment of a list
  with the total of those before it.
\<close>

definition decodedBy :: "decoders \<Rightarrow> File \<Rightarrow> string \<Rightarrow> bool" where
  "decodedBy d f t = (Inr t \<in> {pdfToText d f, docxToText d f, xlsxToText d f, fileToText d f})"

definition stepOk :: "decoders \<Rightarrow> nat \<Rightarrow> attachment \<Rightarrow> bool" where
  "stepOk d tot a =
     (case textContent a of
        None \<Rightarrow> True
      | Some t \<Rightarrow> tot < MAX_TOTAL_TEXT_CHARS
                 \<and> (\<exists>src. decodedBy d (att_file a) src \<and> t = truncateToBudget src tot))"

definition runningOk :: "decoders \<Rightarrow> attachment list \<Rightarrow> bool" where
  "runningOk d as = (\<forall>i<length as. stepOk d (sum_list (map textLength (take i as))) (as ! i))"

section \<open>Messages, chats and projects\<close>

datatype role = user | assistant

text \<open>
  A JavaScript \<open>Date\<close> holds a time value, the milliseconds since the epoch, or \<open>NaN\<close> (an
  invalid date). \<open>new Date()\<close> always makes a valid one.
\<close>

datatype date = Date int | InvalidDate

text \<open>One extracted document of a message, the object \<open>{ name, text }\<close>.\<close>

record fileText =
  ft_name :: string
  ft_text :: string

text \<open>\<open>IChatMessage\<close>, the message in memory. An optional field is an \<open>option\<close>: \<open>None\<close> is \<open>undefined\<close>.\<close>

record IChatMessage =
  m_id :: string
  m_role :: role
  m_content :: string
  m_timestamp :: date
  m_imageDataUrls :: "string list option"
  m_fileTexts :: "fileText list option"
  m_otherFileNames :: "string list option"

text \<open>\<open>IStoredMessage\<close>, the message as stored: the timestamp is an ISO string.\<close>

record IStoredMessage =
  s_id :: string
  s_role :: role
  s_content :: string
  s_timestamp :: string
  s_imageDataUrls :: "string list option"
  s_fileTexts :: "fileText list option"
  s_otherFileNames :: "string list option"

record IStoredChat =
  c_id :: string
  c_projectId :: string
  c_title :: string
  c_messages :: "IStoredMessage list"
  c_createdAt :: string
  c_updatedAt :: string

record IProject =
  p_id :: string
  p_name :: string
  p_createdAt :: string

section \<open>Building the request\<close>

definition nl :: string where
  \<comment> \<open>The line feed, \<open>'\n'\<close>\<close>
  "nl = [CHR 0x0A]"

fun join :: "string \<Rightarrow> string list \<Rightarrow> string" where
  \<comment> \<open>\<open>xs.join(sep)\<close>\<close>
  "join sep [] = []"
| "join sep [x] = x"
| "join sep (x # y # ys) = x @ sep @ join sep (y # ys)"

definition fileBlock :: "fileText \<Rightarrow> string" where
  \<comment> \<open>The template \<open>`--- ${f.name} ---\n${f.text}`\<close>\<close>
  "fileBlock f = ''--- '' @ ft_name f @ '' ---'' @ nl @ ft_text f"

definition buildMessageText :: "string \<Rightarrow> fileText list \<Rightarrow> string list option \<Rightarrow> string" where
  "buildMessageText userText fileTexts otherFileNames =
     (let text0 = userText;
          text1 = (if length fileTexts > 0 then
                     let fileBlocks = join (nl @ nl) (map fileBlock fileTexts)
                     in if text0 \<noteq> [] then text0 @ nl @ nl @ ''Attached files:'' @ nl @ nl @ fileBlocks
                        else ''Attached files:'' @ nl @ nl @ fileBlocks
                   else text0);
          text2 = (case otherFileNames of
                     None \<Rightarrow> text1
                   | Some names \<Rightarrow>
                       if length names > 0 then
                         (if text1 \<noteq> [] then text1 @ nl @ nl else [])
                         @ ''(Also attached; content not extracted: '' @ join '', '' names @ '')''
                       else text1)
      in if text2 \<noteq> [] then text2 else ''(No content)'')"

text \<open>
  A message of the request: \<open>{ role, content }\<close>, where the content is a string or an array of
  parts \<open>{ type: 'text', text }\<close> and \<open>{ type: 'image_url', image_url: { url } }\<close>.
\<close>

datatype part = TextPart string | ImageUrlPart string

datatype content = Str string | Parts "part list"

record apiMessage =
  api_role :: string
  api_content :: content

definition userApiMessage :: "string \<Rightarrow> string list \<Rightarrow> apiMessage" where
  \<comment> \<open>The user message of the request: the text alone when there is no image, else the text part
      followed by one image part for each URL\<close>
  "userApiMessage fullText urls =
     (let parts = TextPart fullText # map ImageUrlPart urls
      in \<lparr>api_role = ''user'', api_content = (if length parts = 1 then Str fullText else Parts parts)\<rparr>)"

definition toApiMessage :: "IChatMessage \<Rightarrow> apiMessage" where
  \<comment> \<open>The function mapped over the stored conversation\<close>
  "toApiMessage m =
     (if m_role m = assistant then \<lparr>api_role = ''assistant'', api_content = Str (m_content m)\<rparr>
      else userApiMessage
             (buildMessageText (m_content m) (case m_fileTexts m of None \<Rightarrow> [] | Some fts \<Rightarrow> fts)
                (m_otherFileNames m))
             (case m_imageDataUrls m of None \<Rightarrow> [] | Some urls \<Rightarrow> urls))"

definition sliceButLast :: "'a list \<Rightarrow> nat \<Rightarrow> 'a list" where
  \<comment> \<open>\<open>xs.slice(0, -n)\<close> for \<open>n > 0\<close>: all but the last \<open>n\<close> elements\<close>
  "sliceButLast xs n = take (length xs - n) xs"

definition conversationMessages ::
  "IChatMessage list \<Rightarrow> string \<Rightarrow> string list \<Rightarrow> fileText list \<Rightarrow> string list \<Rightarrow> bool \<Rightarrow> apiMessage list" where
  \<comment> \<open>\<open>apiMessages\<close> of \<open>buildOpenAIMessages\<close> before the system messages are put in front\<close>
  "conversationMessages messages userText imageDataUrls fileTexts otherFileNames forRegenerate =
     (let list' = (if forRegenerate then sliceButLast messages 1 else messages);
          apiMessages = map toApiMessage list'
      in if \<not> forRegenerate
         then apiMessages @ [userApiMessage (buildMessageText userText fileTexts (Some otherFileNames)) imageDataUrls]
         else apiMessages)"

definition textOf :: "content \<Rightarrow> string option" where
  \<comment> \<open>The text the two detectors read: the string, or the text of the first text part
      (\<open>undefined\<close> when there is none)\<close>
  "textOf c =
     (case c of
        Str s \<Rightarrow> Some s
      | Parts ps \<Rightarrow> (case find (\<lambda>p. case p of TextPart _ \<Rightarrow> True | ImageUrlPart _ \<Rightarrow> False) ps of
                      Some (TextPart t) \<Rightarrow> Some t
                    | _ \<Rightarrow> None))"

definition userTextIncludes :: "string \<Rightarrow> apiMessage \<Rightarrow> bool" where
  \<comment> \<open>The callback of \<open>some\<close> in both text detectors, for the phrase searched\<close>
  "userTextIncludes phrase m =
     (if api_role m \<noteq> ''user'' then False
      else case textOf (api_content m) of None \<Rightarrow> False | Some t \<Rightarrow> includes_str t phrase)"

definition hasImagePart :: "apiMessage \<Rightarrow> bool" where
  \<comment> \<open>The callback of \<open>some\<close> in the image detector\<close>
  "hasImagePart m =
     (if api_role m \<noteq> ''user'' then False
      else case api_content m of
             Str _ \<Rightarrow> False
           | Parts ps \<Rightarrow> list_ex (\<lambda>p. case p of ImageUrlPart _ \<Rightarrow> True | TextPart _ \<Rightarrow> False) ps)"

definition systemFiles :: apiMessage where
  \<open>systemFiles = \<lparr>api_role = ''system'', api_content = Str
     ''The user can attach files. When they do, the full text content of supported files (PDF, Word, Excel, text) is included in the user message under "Attached files:" with the format "--- filename ---" followed by the content. Use that content to answer. Do not say you cannot view or access the files when this content is present.''\<rparr>\<close>

definition systemUnsupported :: apiMessage where
  \<open>systemUnsupported = \<lparr>api_role = ''system'', api_content = Str
     ''The user attached files but text extraction failed (e.g. PDF in browser), so you only see "(Also attached; content not extracted: ...)". Do not say you cannot access attachments. Instead, ask the user to paste the relevant text into the chat or to try a different format (e.g. .txt), or suggest using a backend that can extract PDFs.''\<rparr>\<close>

definition systemImages :: apiMessage where
  \<open>systemImages = \<lparr>api_role = ''system'', api_content = Str
     ''The user can attach images. When they do, the images are included in the user message and you can see them. Describe, analyze, or answer questions about what you see in the images. Do not say you are unable to view or recognize images when they have been shared.''\<rparr>\<close>

definition buildOpenAIMessages ::
  "IChatMessage list \<Rightarrow> string \<Rightarrow> string list \<Rightarrow> fileText list \<Rightarrow> string list \<Rightarrow> bool \<Rightarrow> apiMessage list" where
  \<comment> \<open>\<open>unshift\<close> puts a message in front: the message pushed last comes first\<close>
  "buildOpenAIMessages messages userText imageDataUrls fileTexts otherFileNames forRegenerate =
     (let apiMessages0 = conversationMessages messages userText imageDataUrls fileTexts otherFileNames forRegenerate;
          hasAttachedFileContent = list_ex (userTextIncludes ''Attached files:'') apiMessages0;
          apiMessages1 = (if hasAttachedFileContent then systemFiles # apiMessages0 else apiMessages0);
          hasUnsupportedAttachments =
            (\<not> hasAttachedFileContent \<and> list_ex (userTextIncludes ''content not extracted'') apiMessages1);
          apiMessages2 = (if hasUnsupportedAttachments then systemUnsupported # apiMessages1 else apiMessages1);
          hasImages = list_ex hasImagePart apiMessages2;
          apiMessages3 = (if hasImages then systemImages # apiMessages2 else apiMessages2)
      in apiMessages3)"

section \<open>The platform\<close>

text \<open>
  Two functions of the JavaScript platform are parameters of the model: \<open>newDate\<close> is
  \<open>new Date(s)\<close> on a string, and \<open>isoString\<close> is the text \<open>toISOString\<close> gives for the time value
  of a valid date. \<open>toISOString\<close> throws a \<open>RangeError\<close> on an invalid date.
\<close>

record platform =
  newDate :: "string \<Rightarrow> date"
  isoString :: "int \<Rightarrow> string"

definition toISOString :: "platform \<Rightarrow> date \<Rightarrow> thrown + string" where
  "toISOString P d =
     (case d of Date t \<Rightarrow> Inr (isoString P t) | InvalidDate \<Rightarrow> Inl (ErrorObj ''RangeError'' ''Invalid time value''))"

definition getTime :: "date \<Rightarrow> int option" where
  \<comment> \<open>\<open>d.getTime()\<close>: \<open>None\<close> is \<open>NaN\<close>\<close>
  "getTime d = (case d of Date t \<Rightarrow> Some t | InvalidDate \<Rightarrow> None)"

fun insertBy :: "('a \<Rightarrow> 'a \<Rightarrow> int) \<Rightarrow> 'a \<Rightarrow> 'a list \<Rightarrow> 'a list" where
  "insertBy cmp x [] = [x]"
| "insertBy cmp x (y # ys) = (if cmp x y \<le> 0 then x # y # ys else y # insertBy cmp x ys)"

definition sortBy :: "('a \<Rightarrow> 'a \<Rightarrow> int) \<Rightarrow> 'a list \<Rightarrow> 'a list" where
  \<comment> \<open>\<open>xs.sort(cmp)\<close> as a stable insertion sort: \<open>Array.prototype.sort\<close> is stable, and for a
      consistent comparator every implementation gives this order\<close>
  "sortBy cmp xs = foldr (insertBy cmp) xs []"

definition byUpdatedAtDesc :: "platform \<Rightarrow> IStoredChat \<Rightarrow> IStoredChat \<Rightarrow> int" where
  \<comment> \<open>The comparator \<open>(a, b) => new Date(b.updatedAt).getTime() - new Date(a.updatedAt).getTime()\<close>;
      a \<open>NaN\<close> result counts as 0 in \<open>sort\<close>\<close>
  "byUpdatedAtDesc P a b =
     (case (getTime (newDate P (c_updatedAt b)), getTime (newDate P (c_updatedAt a))) of
        (Some tb, Some ta) \<Rightarrow> tb - ta
      | _ \<Rightarrow> 0)"

section \<open>The local adapter\<close>

text \<open>
  What a slot of \<open>localStorage\<close> holds: nothing, a text that is not the JSON of an array (the
  empty text too), or the JSON of a list of values. \<open>JSON.stringify\<close> and \<open>JSON.parse\<close> are
  modelled by the value they carry: the text written for a list parses back to that list.
\<close>

datatype 'a slot = NoItem | NotJsonArray | Item 'a

text \<open>
  The storage of the origin, with the four slots of \<open>ChatStorage.ts\<close> that hold projects and
  chats. \<open>quotaExceeded\<close> says that \<open>setItem\<close> throws on a large value; the two save functions
  catch and ignore that.
\<close>

record localStorage =
  ls_projects :: "IProject list slot"
  ls_chats :: "IStoredChat list slot"
  ls_currentProject :: "string option"
  ls_currentChat :: "string option"
  quotaExceeded :: bool

definition getProjects :: "localStorage \<Rightarrow> IProject list" where
  "getProjects ls = (case ls_projects ls of Item list' \<Rightarrow> list' | _ \<Rightarrow> [])"

definition saveProjects :: "IProject list \<Rightarrow> localStorage \<Rightarrow> localStorage" where
  "saveProjects projects ls = (if quotaExceeded ls then ls else ls\<lparr>ls_projects := Item projects\<rparr>)"

definition getAllChats :: "localStorage \<Rightarrow> IStoredChat list" where
  "getAllChats ls = (case ls_chats ls of Item list' \<Rightarrow> list' | _ \<Rightarrow> [])"

definition saveAllChats :: "IStoredChat list \<Rightarrow> localStorage \<Rightarrow> localStorage" where
  "saveAllChats chats ls = (if quotaExceeded ls then ls else ls\<lparr>ls_chats := Item chats\<rparr>)"

definition getChatsForProject :: "platform \<Rightarrow> string \<Rightarrow> localStorage \<Rightarrow> IStoredChat list" where
  "getChatsForProject P projectId ls =
     sortBy (byUpdatedAtDesc P) (filter (\<lambda>c. c_projectId c = projectId) (getAllChats ls))"

definition getCurrentProjectId :: "localStorage \<Rightarrow> string option" where
  "getCurrentProjectId ls = ls_currentProject ls"

definition truthy :: "string option \<Rightarrow> bool" where
  \<comment> \<open>The truth of a \<open>string | null\<close>: neither \<open>null\<close> nor the empty string\<close>
  "truthy v = (case v of None \<Rightarrow> False | Some s \<Rightarrow> s \<noteq> [])"

definition persistProjectId :: "string option \<Rightarrow> localStorage \<Rightarrow> localStorage" where
  \<comment> \<open>\<open>setCurrentProjectId\<close> of \<open>ChatStorage.ts\<close>, under the name the component imports it by\<close>
  "persistProjectId v ls = (if truthy v then ls\<lparr>ls_currentProject := v\<rparr> else ls\<lparr>ls_currentProject := None\<rparr>)"

definition getCurrentChatId :: "localStorage \<Rightarrow> string option" where
  "getCurrentChatId ls = ls_currentChat ls"

definition persistChatId :: "string option \<Rightarrow> localStorage \<Rightarrow> localStorage" where
  \<comment> \<open>\<open>setCurrentChatId\<close> of \<open>ChatStorage.ts\<close>, under the name the component imports it by\<close>
  "persistChatId v ls = (if truthy v then ls\<lparr>ls_currentChat := v\<rparr> else ls\<lparr>ls_currentChat := None\<rparr>)"

text \<open>
  The two conversions. The interface gives \<open>m.timestamp\<close> the type \<open>Date\<close>, so of the test
  \<open>typeof m.timestamp === 'string'\<close> only the \<open>toISOString\<close> branch is reachable; it throws on an
  invalid date.
\<close>

definition messageToStored :: "platform \<Rightarrow> IChatMessage \<Rightarrow> thrown + IStoredMessage" where
  "messageToStored P m =
     (case toISOString P (m_timestamp m) of
        Inl err \<Rightarrow> Inl err
      | Inr isoText \<Rightarrow> Inr \<lparr>s_id = m_id m, s_role = m_role m, s_content = m_content m, s_timestamp = isoText,
                        s_imageDataUrls = m_imageDataUrls m, s_fileTexts = m_fileTexts m,
                        s_otherFileNames = m_otherFileNames m\<rparr>)"

definition storedToMessage :: "platform \<Rightarrow> IStoredMessage \<Rightarrow> IChatMessage" where
  "storedToMessage P s =
     \<lparr>m_id = s_id s, m_role = s_role s, m_content = s_content s, m_timestamp = newDate P (s_timestamp s),
      m_imageDataUrls = s_imageDataUrls s, m_fileTexts = s_fileTexts s,
      m_otherFileNames = s_otherFileNames s\<rparr>"

section \<open>The remote adapter\<close>

text \<open>
  The document library as the adapter sees it through \<open>spHttpClient\<close>. \<open>sp_files\<close> are the files of
  the library whose author is the current user (what the items query with its \<open>AuthorId\<close> filter
  lists). The body of a file is modelled by the value it is the JSON of: a chat, a list of
  projects, or a text that is the JSON of neither (the empty text too). The other fields are the
  answers of the server: the id of the current user and the folder of the library (\<open>None\<close>: the
  response is not ok), whether the items query, the read of a file, the upload and the delete
  respond ok, and the text of a response that is not ok. \<open>cachedUserId\<close> is the variable of the
  module.
\<close>

datatype fileBody = ChatJson IStoredChat | ProjectsJson "IProject list" | RawText string

record spFile =
  sp_Name :: string
  sp_ServerRelativeUrl :: string
  sp_body :: fileBody

record spWorld =
  sp_files :: "spFile list"
  sp_userId :: "nat option"
  sp_folder :: "string option"
  sp_listOk :: bool
  sp_readOk :: bool
  sp_addOk :: bool
  sp_deleteOk :: bool
  sp_errorText :: string
  cachedUserId :: "nat option"

text \<open>\<open>IChatStorageSharePointConfig\<close> without the HTTP client, which is the world above.\<close>

record spConfig =
  webAbsoluteUrl :: string
  libraryTitle :: string

definition PROJECTS_FILE_PREFIX :: string where "PROJECTS_FILE_PREFIX = ''chat2etc-projects-''"
definition CHAT_FILE_PREFIX :: string where "CHAT_FILE_PREFIX = ''chat2etc-chat-''"
definition FILE_EXT :: string where "FILE_EXT = ''.json''"

fun numberToString :: "nat \<Rightarrow> string" where
  \<comment> \<open>The decimal digits of a number, as string concatenation writes it\<close>
  "numberToString n =
     (if n < 10 then [char_of (48 + n)] else numberToString (n div 10) @ [char_of (48 + n mod 10)])"

declare numberToString.simps [simp del]

definition getCurrentUserId :: "spWorld \<Rightarrow> (thrown + nat) \<times> spWorld" where
  "getCurrentUserId w =
     (case cachedUserId w of
        Some uid \<Rightarrow> (Inr uid, w)
      | None \<Rightarrow>
          (case sp_userId w of
             None \<Rightarrow> (Inl (newError ''Failed to get current user''), w)
           | Some uid \<Rightarrow> (Inr uid, w\<lparr>cachedUserId := Some uid\<rparr>)))"

definition getFolderServerRelativeUrl :: "spConfig \<Rightarrow> spWorld \<Rightarrow> thrown + string" where
  "getFolderServerRelativeUrl config w =
     (case sp_folder w of
        None \<Rightarrow> Inl (newError (''Library not found or no access: '' @ libraryTitle config @ ''. ''
                              @ take 200 (sp_errorText w)))
      | Some url \<Rightarrow> Inr url)"

text \<open>An item of the listing: \<open>{ Name, ServerRelativeUrl }\<close>.\<close>

record fileItem =
  Name :: string
  ServerRelativeUrl :: string

definition getMyFileItems :: "spWorld \<Rightarrow> (thrown + fileItem list) \<times> spWorld" where
  "getMyFileItems w =
     (case getCurrentUserId w of
        (Inl err, w1) \<Rightarrow> (Inl err, w1)
      | (Inr userId, w1) \<Rightarrow>
          if \<not> sp_listOk w1 then (Inr [], w1)
          else (Inr (map (\<lambda>f. \<lparr>Name = sp_Name f, ServerRelativeUrl = sp_ServerRelativeUrl f\<rparr>)
                       (filter (\<lambda>f. sp_Name f \<noteq> []) (sp_files w1))), w1))"

definition getFileContent :: "string \<Rightarrow> spWorld \<Rightarrow> fileBody" where
  \<comment> \<open>The text of the file at the URL; the empty text when the response is not ok, as it is
      for a URL with no file\<close>
  "getFileContent serverRelativeUrl w =
     (if \<not> sp_readOk w then RawText []
      else case find (\<lambda>f. sp_ServerRelativeUrl f = serverRelativeUrl) (sp_files w) of
             None \<Rightarrow> RawText []
           | Some f \<Rightarrow> sp_body f)"

definition getProjectsFromLibrary :: "spWorld \<Rightarrow> (thrown + IProject list) \<times> spWorld" where
  "getProjectsFromLibrary w =
     (case getCurrentUserId w of
        (Inl err, w1) \<Rightarrow> (Inl err, w1)
      | (Inr userId, w1) \<Rightarrow>
          let fileName = PROJECTS_FILE_PREFIX @ numberToString userId @ FILE_EXT
          in case getMyFileItems w1 of
               (Inl err, w2) \<Rightarrow> (Inl err, w2)
             | (Inr files, w2) \<Rightarrow>
                 (case find (\<lambda>f. Name f = fileName) files of
                    None \<Rightarrow> (Inr [], w2)
                  | Some file' \<Rightarrow>
                      let raw = getFileContent (ServerRelativeUrl file') w2
                      in if raw = RawText [] then (Inr [], w2)
                         else (Inr (case raw of ProjectsJson list' \<Rightarrow> list' | _ \<Rightarrow> []), w2)))"

definition addFile :: "string \<Rightarrow> string \<Rightarrow> fileBody \<Rightarrow> spWorld \<Rightarrow> spWorld" where
  \<comment> \<open>What \<open>Files/add(url=fileName, overwrite=true)\<close> does in the folder when it responds ok: the
      file of that name gets the body, or a new file is made\<close>
  "addFile folderUrl fileName body w =
     (let new = \<lparr>sp_Name = fileName, sp_ServerRelativeUrl = folderUrl @ ''/'' @ fileName, sp_body = body\<rparr>
      in if list_ex (\<lambda>f. sp_Name f = fileName) (sp_files w)
         then w\<lparr>sp_files := map (\<lambda>f. if sp_Name f = fileName then new else f) (sp_files w)\<rparr>
         else w\<lparr>sp_files := sp_files w @ [new]\<rparr>)"

definition saveProjectsToLibrary :: "spConfig \<Rightarrow> IProject list \<Rightarrow> spWorld \<Rightarrow> (thrown + unit) \<times> spWorld" where
  "saveProjectsToLibrary config projects w =
     (case getCurrentUserId w of
        (Inl err, w1) \<Rightarrow> (Inl err, w1)
      | (Inr userId, w1) \<Rightarrow>
          let fileName = PROJECTS_FILE_PREFIX @ numberToString userId @ FILE_EXT
          in case getFolderServerRelativeUrl config w1 of
               Inl err \<Rightarrow> (Inl err, w1)
             | Inr folderUrl \<Rightarrow>
                 if \<not> sp_addOk w1
                 then (Inl (newError (''Failed to save projects: '' @ take 200 (sp_errorText w1))), w1)
                 else (Inr (), addFile folderUrl fileName (ProjectsJson projects) w1))"

definition getChatsFromLibrary :: "platform \<Rightarrow> spWorld \<Rightarrow> (thrown + IStoredChat list) \<times> spWorld" where
  "getChatsFromLibrary P w =
     (case getMyFileItems w of
        (Inl err, w1) \<Rightarrow> (Inl err, w1)
      | (Inr files, w1) \<Rightarrow>
          let chatFiles = filter (\<lambda>f. startsWith (Name f) CHAT_FILE_PREFIX \<and> endsWith (Name f) FILE_EXT) files;
              chats = concat (map (\<lambda>file'.
                        let raw = getFileContent (ServerRelativeUrl file') w1
                        in if raw = RawText [] then []
                           else case raw of
                                  ChatJson chat \<Rightarrow> if c_id chat \<noteq> [] \<and> c_projectId chat \<noteq> [] then [chat] else []
                                | _ \<Rightarrow> []) chatFiles)
          in (Inr (sortBy (byUpdatedAtDesc P) chats), w1))"

definition saveChatToLibrary :: "spConfig \<Rightarrow> IStoredChat \<Rightarrow> spWorld \<Rightarrow> (thrown + unit) \<times> spWorld" where
  "saveChatToLibrary config chat w =
     (case getFolderServerRelativeUrl config w of
        Inl err \<Rightarrow> (Inl err, w)
      | Inr folderUrl \<Rightarrow>
          let fileName = CHAT_FILE_PREFIX @ c_id chat @ FILE_EXT
          in if \<not> sp_addOk w
             then (Inl (newError (''Failed to save chat: '' @ take 200 (sp_errorText w))), w)
             else (Inr (), addFile folderUrl fileName (ChatJson chat) w))"

definition deleteChatFromLibrary :: "string \<Rightarrow> spWorld \<Rightarrow> (thrown + unit) \<times> spWorld" where
  "deleteChatFromLibrary chatId w =
     (case getMyFileItems w of
        (Inl err, w1) \<Rightarrow> (Inl err, w1)
      | (Inr files, w1) \<Rightarrow>
          let fileName = CHAT_FILE_PREFIX @ chatId @ FILE_EXT
          in case find (\<lambda>f. Name f = fileName) files of
               None \<Rightarrow> (Inr (), w1)
             | Some file' \<Rightarrow>
                 if \<not> sp_deleteOk w1
                 then (Inl (newError (''Failed to delete chat: '' @ take 200 (sp_errorText w1))), w1)
                 else (Inr (), w1\<lparr>sp_files :=
                         filter (\<lambda>f. sp_ServerRelativeUrl f \<noteq> ServerRelativeUrl file') (sp_files w1)\<rparr>))"

text \<open>The id the adapter resolves for the current user: the cached one, else the server's answer.\<close>

definition userIdOf :: "spWorld \<Rightarrow> nat option" where
  "userIdOf w = (case cachedUserId w of Some uid \<Rightarrow> Some uid | None \<Rightarrow> sp_userId w)"

text \<open>
  The conditions of a round trip. \<open>validTimestamp\<close>: the timestamp of the message is a valid date,
  and the platform reads its ISO string back as the same time value (as ECMAScript has it for
  every valid date). \<open>remoteReady\<close>: the server answers every request of a save and a load ok, and
  the library is as the adapter writes it: each file lies in the folder under its name, and a file
  that holds a chat is named after the id of that chat.
\<close>

definition validTimestamp :: "platform \<Rightarrow> IChatMessage \<Rightarrow> bool" where
  "validTimestamp P m =
     (case m_timestamp m of Date t \<Rightarrow> newDate P (isoString P t) = Date t | InvalidDate \<Rightarrow> False)"

definition fileInPlace :: "string \<Rightarrow> spFile \<Rightarrow> bool" where
  "fileInPlace folderUrl f =
     (sp_ServerRelativeUrl f = folderUrl @ ''/'' @ sp_Name f
      \<and> (case sp_body f of
            ChatJson c \<Rightarrow> sp_Name f = CHAT_FILE_PREFIX @ c_id c @ FILE_EXT
          | _ \<Rightarrow> True))"

definition remoteReady :: "string \<Rightarrow> spWorld \<Rightarrow> bool" where
  "remoteReady folderUrl w =
     (userIdOf w \<noteq> None \<and> sp_folder w = Some folderUrl \<and> sp_addOk w \<and> sp_listOk w \<and> sp_readOk w
      \<and> list_all (fileInPlace folderUrl) (sp_files w))"

section \<open>The chat component\<close>

text \<open>
  The state of the \<open>Chat\<close> component: its state variables, the \<open>AbortController\<close>s it has made
  (\<open>controllers\<close>, each with the flag of its signal: aborted or not) with \<open>abortRef.current\<close> as an
  index into them, the storage of the origin and the document library. The variables that only
  drive the layout (the sidebar, its menu) are left out. A handler is a function from the state
  it was rendered with to the state after all of its updates; its closure reads the state it was
  rendered with, and a functional update \<open>setMessages((prev) => ...)\<close> applies to the state the
  updates before it left.
\<close>

record ChatState =
  messages :: "IChatMessage list"
  input :: string
  attachments :: "attachment list"
  model :: string
  loading :: bool
  error :: "string option"
  projects :: "IProject list"
  currentProjectId :: "string option"
  allChats :: "IStoredChat list"
  chats :: "IStoredChat list"
  currentChatId :: "string option"
  controllers :: "bool list"
  abortRef :: "nat option"
  storage :: localStorage
  library :: spWorld

text \<open>
  The properties of the web part the handlers read: the API key, and the configuration of the
  remote adapter (\<open>None\<close> when \<open>useSharePoint\<close> is false).
\<close>

record props =
  apiKey :: string
  spConfig :: "spConfig option"

text \<open>
  What a handler draws from outside: the ids \<open>generateId()\<close> returns (for the user message, for a
  new chat, for the assistant placeholder) and the time of \<open>new Date()\<close>, one value for the calls
  of one handler.
\<close>

record fresh =
  userMessageId :: string
  newChatId :: string
  placeholderId :: string
  now :: int

definition errorMessageOr :: "thrown \<Rightarrow> string \<Rightarrow> string" where
  \<comment> \<open>\<open>e instanceof Error ? e.message : fallback\<close>\<close>
  "errorMessageOr e fallback = (case e of ErrorObj _ msg \<Rightarrow> msg | OtherThrown \<Rightarrow> fallback)"

definition setCurrentProjectId :: "string option \<Rightarrow> ChatState \<Rightarrow> ChatState" where
  \<comment> \<open>The callback of the component: it also clears the current chat\<close>
  "setCurrentProjectId v st =
     st\<lparr>currentProjectId := v, currentChatId := None,
        storage := persistChatId None (persistProjectId v (storage st))\<rparr>"

definition setCurrentChatId :: "string option \<Rightarrow> ChatState \<Rightarrow> ChatState" where
  "setCurrentChatId v st = st\<lparr>currentChatId := v, storage := persistChatId v (storage st)\<rparr>"

definition newChatRecord :: "platform \<Rightarrow> string \<Rightarrow> string \<Rightarrow> string \<Rightarrow> int \<Rightarrow> IStoredChat" where
  \<comment> \<open>The record of a chat just created\<close>
  "newChatRecord P newId projectId title t =
     \<lparr>c_id = newId, c_projectId = projectId, c_title = title, c_messages = [],
      c_createdAt = isoString P t, c_updatedAt = isoString P t\<rparr>"

definition abortCurrent :: "ChatState \<Rightarrow> ChatState" where
  \<comment> \<open>\<open>abortRef.current?.abort()\<close>\<close>
  "abortCurrent st =
     (case abortRef st of None \<Rightarrow> st | Some i \<Rightarrow> st\<lparr>controllers := (controllers st)[i := True]\<rparr>)"

definition newChat :: "platform \<Rightarrow> props \<Rightarrow> fresh \<Rightarrow> ChatState \<Rightarrow> ChatState" where
  \<comment> \<open>The promise of \<open>saveChatToLibrary\<close> is taken to settle before anything else happens\<close>
  "newChat P pr fr st =
     (let st1 = (abortCurrent st)\<lparr>input := [], attachments := [], error := None, loading := False\<rparr>
      in if \<not> truthy (currentProjectId st) then st1
         else
           let projectId = the (currentProjectId st);
               newId = newChatId fr;
               record' = newChatRecord P newId projectId ''New chat'' (now fr)
           in case spConfig pr of
                Some config \<Rightarrow>
                  let st2 = (case saveChatToLibrary config record' (library st1) of
                               (Inr _, w) \<Rightarrow> st1\<lparr>library := w, allChats := allChats st1 @ [record']\<rparr>
                             | (Inl e, w) \<Rightarrow> st1\<lparr>library := w, error := Some (errorMessageOr e ''Failed to create chat'')\<rparr>)
                  in (setCurrentChatId (Some newId) st2)\<lparr>messages := []\<rparr>
              | None \<Rightarrow>
                  let ls = saveAllChats (getAllChats (storage st1) @ [record']) (storage st1);
                      st2 = st1\<lparr>storage := ls, chats := getChatsForProject P projectId ls\<rparr>
                  in (setCurrentChatId (Some newId) st2)\<lparr>messages := []\<rparr>)"

definition handleSelectChat :: "IStoredChat \<Rightarrow> ChatState \<Rightarrow> ChatState" where
  "handleSelectChat chat st = setCurrentChatId (Some (c_id chat)) st"

subsection \<open>Sending\<close>

text \<open>The request \<open>sendMessage\<close> gives to \<open>fetch\<close>, and the running call once the request is out.\<close>

record request =
  req_key :: string
  req_model :: string
  req_messages :: "apiMessage list"

record operation =
  op_placeholderId :: string
  op_controller :: nat
  op_buffer :: string
  op_fullContent :: string

definition orEmpty :: "'a list option \<Rightarrow> 'a list" where
  \<comment> \<open>\<open>xs || []\<close>\<close>
  "orEmpty v = (case v of None \<Rightarrow> [] | Some xs \<Rightarrow> xs)"

definition undefinedIfEmpty :: "'a list \<Rightarrow> 'a list option" where
  \<comment> \<open>\<open>xs.length ? xs : undefined\<close>\<close>
  "undefinedIfEmpty xs = (if length xs > 0 then Some xs else None)"

definition attachedImageDataUrls :: "attachment list \<Rightarrow> string list" where
  \<comment> \<open>\<open>attachments.filter((a) => a.dataUrl).map((a) => a.dataUrl as string)\<close>\<close>
  "attachedImageDataUrls as = map (\<lambda>a. the (dataUrl a)) (filter (\<lambda>a. truthy (dataUrl a)) as)"

definition attachedFileTexts :: "attachment list \<Rightarrow> fileText list" where
  \<comment> \<open>The attachments with a \<open>textContent\<close>, as \<open>{ name, text }\<close>\<close>
  "attachedFileTexts as =
     map (\<lambda>a. \<lparr>ft_name = file_name (att_file a), ft_text = the (textContent a)\<rparr>)
       (filter (\<lambda>a. textContent a \<noteq> None) as)"

definition attachedOtherFileNames :: "attachment list \<Rightarrow> string list" where
  \<comment> \<open>The names of the attachments with neither a data URL nor a \<open>textContent\<close>\<close>
  "attachedOtherFileNames as =
     map (\<lambda>a. file_name (att_file a)) (filter (\<lambda>a. \<not> truthy (dataUrl a) \<and> textContent a = None) as)"

definition apiKeyMissing :: string where
  "apiKeyMissing = ''OpenAI API key is not set. Add it in the web part properties (pencil icon).''"

definition startChatForSend :: "platform \<Rightarrow> props \<Rightarrow> fresh \<Rightarrow> string \<Rightarrow> string list \<Rightarrow> ChatState \<Rightarrow> ChatState" where
  \<comment> \<open>The first message with no chat chosen makes the chat; a failed save to the library is
      ignored, as the empty \<open>catch\<close> has it\<close>
  "startChatForSend P pr fr userText imageDataUrls st =
     (if \<not> truthy (currentChatId st) \<and> truthy (currentProjectId st) then
        let projectId = the (currentProjectId st);
            newId = newChatId fr;
            title = (let t = take 50 (trim userText)
                     in if t \<noteq> [] then t else if length imageDataUrls > 0 then ''Image'' else ''Files'');
            record' = newChatRecord P newId projectId title (now fr);
            st1 = st\<lparr>currentChatId := Some newId, storage := persistChatId (Some newId) (storage st)\<rparr>
        in case spConfig pr of
             Some config \<Rightarrow>
               (case saveChatToLibrary config record' (library st1) of
                  (Inr _, w) \<Rightarrow> st1\<lparr>library := w, allChats := allChats st1 @ [record']\<rparr>
                | (Inl e, w) \<Rightarrow> st1\<lparr>library := w\<rparr>)
           | None \<Rightarrow>
               let ls = saveAllChats (getAllChats (storage st1) @ [record']) (storage st1)
               in st1\<lparr>storage := ls, chats := getChatsForProject P projectId ls\<rparr>
      else st)"

definition sendMessage ::
  "platform \<Rightarrow> props \<Rightarrow> fresh \<Rightarrow> bool \<Rightarrow> ChatState \<Rightarrow> ChatState \<times> (request \<times> operation) option" where
  \<comment> \<open>\<open>sendMessage\<close> up to the call of \<open>fetch\<close>: the state after its updates, and the request with
      the running call when one is sent. The Boolean is \<open>options?.regenerate\<close>.\<close>
  "sendMessage P pr fr regenerate st =
     (let key = trim (apiKey pr)
      in if key = [] then (st\<lparr>error := Some apiKeyMissing\<rparr>, None)
         else
           let userText0 = trim (input st);
               imageDataUrls0 = attachedImageDataUrls (attachments st);
               fileTexts0 = attachedFileTexts (attachments st);
               otherFileNames0 = attachedOtherFileNames (attachments st);
               lastUser = (if regenerate \<and> length (messages st) \<ge> 2
                           then find (\<lambda>m. m_role m = user) (rev (messages st)) else None);
               userText = (case lastUser of None \<Rightarrow> userText0 | Some m \<Rightarrow> m_content m);
               imageDataUrls = (case lastUser of None \<Rightarrow> imageDataUrls0 | Some m \<Rightarrow> orEmpty (m_imageDataUrls m));
               fileTexts = (case lastUser of None \<Rightarrow> fileTexts0 | Some m \<Rightarrow> orEmpty (m_fileTexts m));
               otherFileNames = (case lastUser of None \<Rightarrow> otherFileNames0 | Some m \<Rightarrow> orEmpty (m_otherFileNames m));
               st1 = (case lastUser of None \<Rightarrow> st | Some m \<Rightarrow> st\<lparr>messages := sliceButLast (messages st) 2\<rparr>);
               hasContent = (length userText > 0 \<or> length imageDataUrls > 0 \<or> length fileTexts > 0
                             \<or> length otherFileNames > 0)
           in if \<not> hasContent \<and> \<not> regenerate then (st1, None)
              else if loading st then (st1, None)
              else
                let st2 = st1\<lparr>error := None\<rparr>;
                    st3 = (if \<not> regenerate then
                             let userMessage =
                                   \<lparr>m_id = userMessageId fr, m_role = user,
                                    m_content = (if userText \<noteq> [] then userText
                                                 else if length imageDataUrls > 0 then ''(Sent images)''
                                                 else ''(Sent files)''),
                                    m_timestamp = Date (now fr),
                                    m_imageDataUrls = undefinedIfEmpty imageDataUrls,
                                    m_fileTexts = undefinedIfEmpty fileTexts,
                                    m_otherFileNames = undefinedIfEmpty otherFileNames\<rparr>;
                                 st2a = startChatForSend P pr fr userText imageDataUrls
                                          (st2\<lparr>input := [], attachments := []\<rparr>)
                             in st2a\<lparr>messages := messages st2a @ [userMessage]\<rparr>
                           else st2);
                    assistantPlaceholder =
                      \<lparr>m_id = placeholderId fr, m_role = assistant, m_content = [], m_timestamp = Date (now fr),
                       m_imageDataUrls = None, m_fileTexts = None, m_otherFileNames = None\<rparr>;
                    st4 = st3\<lparr>messages := messages st3 @ [assistantPlaceholder], loading := True,
                              controllers := controllers st3 @ [False],
                              abortRef := Some (length (controllers st3))\<rparr>;
                    apiMessages = buildOpenAIMessages (messages st) userText imageDataUrls fileTexts
                                    otherFileNames regenerate
                in (st4, Some (\<lparr>req_key = key, req_model = model st, req_messages = apiMessages\<rparr>,
                               \<lparr>op_placeholderId = placeholderId fr, op_controller = length (controllers st3),
                                op_buffer = [], op_fullContent = []\<rparr>)))"

subsection \<open>Initial values\<close>

text \<open>
  The state of a component just mounted on empty storage (the library empty and answering ok), a
  platform that knows the epoch, and inputs of a handler.
\<close>

definition DEFAULT_MODEL :: string where "DEFAULT_MODEL = ''gpt-4o-mini''"

definition emptyStorage :: localStorage where
  "emptyStorage = \<lparr>ls_projects = NoItem, ls_chats = NoItem, ls_currentProject = None,
      ls_currentChat = None, quotaExceeded = False\<rparr>"

definition emptyLibrary :: spWorld where
  "emptyLibrary = \<lparr>sp_files = [], sp_userId = Some 7, sp_folder = Some ''/sites/team/Chats'',
      sp_listOk = True, sp_readOk = True, sp_addOk = True, sp_deleteOk = True, sp_errorText = [],
      cachedUserId = None\<rparr>"

definition initialState :: ChatState where
  "initialState = \<lparr>messages = [], input = [], attachments = [], model = DEFAULT_MODEL, loading = False,
      error = None, projects = [], currentProjectId = None, allChats = [], chats = [],
      currentChatId = None, controllers = [], abortRef = None, storage = emptyStorage,
      library = emptyLibrary\<rparr>"

definition epochPlatform :: platform where
  "epochPlatform = \<lparr>newDate = (\<lambda>s. if s = ''1970-01-01T00:00:00.000Z'' then Date 0 else InvalidDate),
      isoString = (\<lambda>t. if t = 0 then ''1970-01-01T00:00:00.000Z'' else [])\<rparr>"

definition localProps :: props where
  "localProps = \<lparr>apiKey = ''sk-test'', spConfig = None\<rparr>"

definition remoteProps :: props where
  "remoteProps = \<lparr>apiKey = ''sk-test'',
      spConfig = Some \<lparr>webAbsoluteUrl = ''https://host/sites/team'', libraryTitle = ''Chats''\<rparr>\<rparr>"

definition someFresh :: fresh where
  "someFresh = \<lparr>userMessageId = ''0-u'', newChatId = ''0-c'', placeholderId = ''0-a'', now = 0\<rparr>"

subsection \<open>The response\<close>

text \<open>
  After \<open>fetch\<close> the call of \<open>sendMessage\<close> goes on in steps, one for the answer of \<open>fetch\<close> and one
  for each \<open>reader.read()\<close>; other handlers may run between two steps. A step takes the running
  call and the state and gives the call that goes on (\<open>None\<close> when it has ended) and the new state.
  Once the signal of its controller is aborted, \<open>fetch\<close> and \<open>read\<close> reject with an \<open>AbortError\<close>,
  whatever the server sent. The two \<open>try\<close> blocks around \<open>JSON.parse\<close> are parameters: what
  reading \<open>error?.message\<close> of the parsed body of a failed response, and \<open>choices?.[0]?.delta?.content\<close>
  of the parsed data of an event, comes to. \<open>None\<close>: the \<open>try\<close> block throws, because the text is not
  JSON or because it is the JSON \<open>null\<close>, of which no property can be read; \<open>Some None\<close>: a JSON value
  other than \<open>null\<close> where the field is missing; \<open>Some (Some s)\<close>: the string of the field.
\<close>

record eventParser =
  errorMessageOf :: "string \<Rightarrow> string option option"
  deltaOf :: "string \<Rightarrow> string option option"

datatype response = NotOk nat string | OkNoBody | OkStream

datatype fetched = Rejected thrown | Resolved response

datatype readResult = ReadChunk string | ReadDone | ReadRejected thrown

fun splitOn :: "char \<Rightarrow> string \<Rightarrow> string list" where
  \<comment> \<open>\<open>s.split(c)\<close> for a separator of one character\<close>
  "splitOn c [] = [[]]"
| "splitOn c (x # xs) =
     (if x = c then [] # splitOn c xs
      else case splitOn c xs of [] \<Rightarrow> [[x]] | y # ys \<Rightarrow> (x # y) # ys)"

definition setContent :: "string \<Rightarrow> string \<Rightarrow> ChatState \<Rightarrow> ChatState" where
  \<comment> \<open>\<open>setMessages((prev) => prev.map((m) => (m.id === id ? { ...m, content } : m)))\<close>\<close>
  "setContent id' content' st =
     st\<lparr>messages := map (\<lambda>m. if m_id m = id' then m\<lparr>m_content := content'\<rparr> else m) (messages st)\<rparr>"

definition isAborted :: "operation \<Rightarrow> ChatState \<Rightarrow> bool" where
  \<comment> \<open>The signal the call gave to \<open>fetch\<close> is aborted\<close>
  "isAborted op st = (op_controller op < length (controllers st) \<and> controllers st ! op_controller op)"

definition finallyBlock :: "ChatState \<Rightarrow> ChatState" where
  \<comment> \<open>The \<open>finally\<close> block\<close>
  "finallyBlock st = st\<lparr>loading := False, abortRef := None\<rparr>"

definition catchError :: "thrown \<Rightarrow> operation \<Rightarrow> ChatState \<Rightarrow> ChatState" where
  \<comment> \<open>The \<open>catch\<close> block: an \<open>AbortError\<close> returns, any other error is written into the message\<close>
  "catchError err op st =
     (if (case err of ErrorObj name _ \<Rightarrow> name = ''AbortError'' | OtherThrown \<Rightarrow> False) then st
      else let errMsg = errorMessageOr err ''Something went wrong.''
           in st\<lparr>messages := map (\<lambda>m. if m_id m = op_placeholderId op
                                       then m\<lparr>m_content := ''Error: '' @ errMsg, m_role := assistant\<rparr> else m)
                                (messages st),
                 error := Some errMsg\<rparr>)"

definition requestFailedMessage :: "eventParser \<Rightarrow> nat \<Rightarrow> string \<Rightarrow> string" where
  \<comment> \<open>\<open>errMsg\<close> for a response that is not ok. When the \<open>try\<close> block throws (a body that is not
      JSON, or the body \<open>null\<close>), the \<open>catch\<close> takes the first 200 characters of a non-empty body.\<close>
  "requestFailedMessage J status errBody =
     (let errMsg = ''Request failed ('' @ numberToString status @ '')''
      in case errorMessageOf J errBody of
           None \<Rightarrow> if errBody \<noteq> [] then take 200 errBody else errMsg
         | Some None \<Rightarrow> errMsg
         | Some (Some msg) \<Rightarrow> if msg \<noteq> [] then msg else errMsg)"

definition onFetched :: "eventParser \<Rightarrow> fetched \<Rightarrow> operation \<Rightarrow> ChatState \<Rightarrow> operation option \<times> ChatState" where
  "onFetched J f op st =
     (if isAborted op st then (None, finallyBlock st)
      else case f of
             Rejected err \<Rightarrow> (None, finallyBlock (catchError err op st))
           | Resolved (NotOk status errBody) \<Rightarrow>
               (None, finallyBlock (catchError (newError (requestFailedMessage J status errBody)) op st))
           | Resolved OkNoBody \<Rightarrow> (None, finallyBlock (catchError (newError ''No response body'') op st))
           | Resolved OkStream \<Rightarrow> (Some op, st))"

definition processLine :: "eventParser \<Rightarrow> string \<Rightarrow> string \<times> ChatState \<Rightarrow> string \<Rightarrow> string \<times> ChatState" where
  \<comment> \<open>The body of the loop over the lines of a chunk, on \<open>fullContent\<close> and the state\<close>
  "processLine J id' = (\<lambda>(fullContent, st) line.
     if startsWith line ''data: '' then
       let data = drop 6 line
       in if data = ''[DONE]'' then (fullContent, st)
          else case deltaOf J data of
                 Some (Some delta) \<Rightarrow>
                   if delta \<noteq> [] then (fullContent @ delta, setContent id' (fullContent @ delta) st)
                   else (fullContent, st)
               | _ \<Rightarrow> (fullContent, st)
     else (fullContent, st))"

definition onRead :: "eventParser \<Rightarrow> readResult \<Rightarrow> operation \<Rightarrow> ChatState \<Rightarrow> operation option \<times> ChatState" where
  "onRead J r op st =
     (if isAborted op st then (None, finallyBlock st)
      else case r of
             ReadRejected err \<Rightarrow> (None, finallyBlock (catchError err op st))
           | ReadChunk decoded \<Rightarrow>
               let lines = splitOn (CHR 0x0A) (op_buffer op @ decoded);
                   (fullContent, st') = foldl (processLine J (op_placeholderId op)) (op_fullContent op, st) (butlast lines)
               in (Some (op\<lparr>op_buffer := last lines, op_fullContent := fullContent\<rparr>), st')
           | ReadDone \<Rightarrow>
               let fullContent = (if trim (op_fullContent op) = [] then ''No response.'' else op_fullContent op)
               in (None, finallyBlock (setContent (op_placeholderId op) fullContent st)))"

fun runReads :: "eventParser \<Rightarrow> readResult list \<Rightarrow> operation \<Rightarrow> ChatState \<Rightarrow> operation option \<times> ChatState" where
  \<comment> \<open>The reads of a stream one after the other, with nothing between them\<close>
  "runReads J [] op st = (Some op, st)"
| "runReads J (r # rs) op st =
     (case onRead J r op st of
        (None, st') \<Rightarrow> (None, st')
      | (Some op', st') \<Rightarrow> runReads J rs op' st')"

subsection \<open>Deleting a project\<close>

fun deleteAll :: "string list \<Rightarrow> spWorld \<Rightarrow> thrown list \<times> spWorld" where
  \<comment> \<open>The calls of \<open>deleteChatFromLibrary\<close> that \<open>Promise.all\<close> waits for: each runs whether or not
      another one fails; the errors they raise, in order\<close>
  "deleteAll [] w = ([], w)"
| "deleteAll (chatId # rest) w =
     (case deleteChatFromLibrary chatId w of
        (Inl err, w1) \<Rightarrow> (let (errs, w2) = deleteAll rest w1 in (err # errs, w2))
      | (Inr _, w1) \<Rightarrow> deleteAll rest w1)"

definition afterProjectDeleted :: "IProject \<Rightarrow> IProject list \<Rightarrow> IStoredChat list \<Rightarrow> ChatState \<Rightarrow> ChatState \<Rightarrow> ChatState" where
  \<comment> \<open>The end of both branches: when the project deleted was the current one, the first project left
      becomes current with its first chat, or nothing is current. \<open>st0\<close> is the state the handler was
      rendered with.\<close>
  "afterProjectDeleted p remaining nextAll st0 st =
     (if currentProjectId st0 = Some (p_id p) then
        (case remaining of
           first # _ \<Rightarrow>
             setCurrentChatId (map_option c_id (find (\<lambda>c. c_projectId c = p_id first) nextAll))
               (setCurrentProjectId (Some (p_id first)) st)
         | [] \<Rightarrow> (setCurrentChatId None (setCurrentProjectId None st))\<lparr>messages := []\<rparr>)
      else st)"

definition handleDeleteProject :: "props \<Rightarrow> bool \<Rightarrow> IProject \<Rightarrow> ChatState \<Rightarrow> ChatState" where
  \<comment> \<open>The Boolean is the answer to \<open>window.confirm\<close>. The promises are taken to settle before
      anything else happens.\<close>
  "handleDeleteProject pr confirmed p st =
     (if \<not> confirmed then st
      else
        let projectChats = filter (\<lambda>c. c_projectId c = p_id p) (chats st)
        in case spConfig pr of
             Some config \<Rightarrow>
               (case deleteAll (map c_id projectChats) (library st) of
                  (err # _, w) \<Rightarrow> st\<lparr>library := w, error := Some (errorMessageOr err ''Failed to delete project'')\<rparr>
                | ([], w) \<Rightarrow>
                    (case saveProjectsToLibrary config (filter (\<lambda>x. p_id x \<noteq> p_id p) (projects st)) w of
                       (Inl err, w1) \<Rightarrow> st\<lparr>library := w1, error := Some (errorMessageOr err ''Failed to delete project'')\<rparr>
                     | (Inr _, w1) \<Rightarrow>
                         afterProjectDeleted p
                           (filter (\<lambda>x. p_id x \<noteq> p_id p) (projects st))
                           (filter (\<lambda>c. c_projectId c \<noteq> p_id p) (allChats st)) st
                           (st\<lparr>library := w1,
                               projects := filter (\<lambda>x. p_id x \<noteq> p_id p) (projects st),
                               allChats := filter (\<lambda>c. c_projectId c \<noteq> p_id p) (allChats st),
                               chats := filter (\<lambda>c. c_projectId c \<noteq> p_id p) (chats st)\<rparr>)))
           | None \<Rightarrow>
               let nextProjects = filter (\<lambda>x. p_id x \<noteq> p_id p) (projects st);
                   all = filter (\<lambda>c. c_projectId c \<noteq> p_id p) (getAllChats (storage st));
                   ls = saveAllChats all (saveProjects nextProjects (storage st))
               in afterProjectDeleted p nextProjects all st
                    (st\<lparr>storage := ls, projects := nextProjects, allChats := all,
                        chats := filter (\<lambda>c. c_projectId c \<noteq> p_id p) (chats st)\<rparr>))"

subsection \<open>A running request\<close>

text \<open>The state and the running call after \<open>hi\<close> is sent from the initial state.\<close>

definition streamingState :: ChatState where
  "streamingState = fst (sendMessage epochPlatform localProps someFresh False (initialState\<lparr>input := ''hi''\<rparr>))"

definition streamingOperation :: operation where
  "streamingOperation =
     snd (the (snd (sendMessage epochPlatform localProps someFresh False (initialState\<lparr>input := ''hi''\<rparr>))))"

subsection \<open>Two projects in the library\<close>

text \<open>
  A component on the remote adapter with two projects, one chat in each, the first project
  selected: \<open>chats\<close> holds the chats of the selected project, as the effect on \<open>currentProjectId\<close>
  and \<open>allChats\<close> sets it. The library holds the file of the projects and one file for each chat.
\<close>

definition defaultProject :: IProject where
  "defaultProject = \<lparr>p_id = ''p1'', p_name = ''Default'', p_createdAt = ''1970-01-01T00:00:00.000Z''\<rparr>"

definition otherProject :: IProject where
  "otherProject = \<lparr>p_id = ''p2'', p_name = ''Other'', p_createdAt = ''1970-01-01T00:00:00.000Z''\<rparr>"

definition defaultChat :: IStoredChat where
  "defaultChat = newChatRecord epochPlatform ''c1'' ''p1'' ''New chat'' 0"

definition otherChat :: IStoredChat where
  "otherChat = newChatRecord epochPlatform ''c2'' ''p2'' ''New chat'' 0"

definition twoProjectsLibrary :: spWorld where
  "twoProjectsLibrary = emptyLibrary\<lparr>sp_files :=
     [\<lparr>sp_Name = ''chat2etc-projects-7.json'',
       sp_ServerRelativeUrl = ''/sites/team/Chats/chat2etc-projects-7.json'',
       sp_body = ProjectsJson [defaultProject, otherProject]\<rparr>,
      \<lparr>sp_Name = ''chat2etc-chat-c1.json'',
       sp_ServerRelativeUrl = ''/sites/team/Chats/chat2etc-chat-c1.json'',
       sp_body = ChatJson defaultChat\<rparr>,
      \<lparr>sp_Name = ''chat2etc-chat-c2.json'',
       sp_ServerRelativeUrl = ''/sites/team/Chats/chat2etc-chat-c2.json'',
       sp_body = ChatJson otherChat\<rparr>]\<rparr>"

definition twoProjectsState :: ChatState where
  "twoProjectsState = initialState\<lparr>projects := [defaultProject, otherProject],
      currentProjectId := Some ''p1'', allChats := [defaultChat, otherChat], chats := [defaultChat],
      library := twoProjectsLibrary\<rparr>"

subsection \<open>A batch of files that exhausts the budget\<close>

text \<open>
  Four files chosen at once: a short note, a PDF above the size limit of 10 MB, a PDF whose text
  has 80001 characters, and a short PDF after it. The decoders give the note the text \<open>note\<close>,
  the long PDF 80001 times the letter \<open>a\<close> and any other PDF the text \<open>hello\<close>.
\<close>

definition noteFile :: File where
  "noteFile = \<lparr>file_name = ''n.txt'', file_type = ''text/plain'', file_size = 4\<rparr>"

definition hugePdf :: File where
  "hugePdf = \<lparr>file_name = ''huge.pdf'', file_type = ''application/pdf'', file_size = 11534336\<rparr>"

definition longPdf :: File where
  "longPdf = \<lparr>file_name = ''long.pdf'', file_type = ''application/pdf'', file_size = 80001\<rparr>"

definition laterPdf :: File where
  "laterPdf = \<lparr>file_name = ''later.pdf'', file_type = ''application/pdf'', file_size = 5\<rparr>"

definition batchDecoders :: decoders where
  "batchDecoders =
     \<lparr>fileToDataUrl = (\<lambda>f. Inr ''data:image/png;base64,AA''),
      fileToText = (\<lambda>f. Inr ''note''),
      pdfToText = (\<lambda>f. if file_name f = ''long.pdf'' then Inr (replicate 80001 CHR ''a'') else Inr ''hello''),
      docxToText = (\<lambda>f. Inl (newError ''Not a document'')),
      xlsxToText = (\<lambda>f. Inl (newError ''Not a workbook''))\<rparr>"

subsection \<open>A conversation whose last question carries attachments\<close>

text \<open>
  Four stored messages: a question and its answer, then a question sent with two extracted
  documents, two files whose content was not extracted and one image, and its answer.
\<close>

definition earlierQuestion :: IChatMessage where
  "earlierQuestion = \<lparr>m_id = ''1'', m_role = user, m_content = ''q'', m_timestamp = Date 0,
      m_imageDataUrls = None, m_fileTexts = None, m_otherFileNames = None\<rparr>"

definition earlierAnswer :: IChatMessage where
  "earlierAnswer = \<lparr>m_id = ''2'', m_role = assistant, m_content = ''r'', m_timestamp = Date 0,
      m_imageDataUrls = None, m_fileTexts = None, m_otherFileNames = None\<rparr>"

definition attachedQuestion :: IChatMessage where
  "attachedQuestion = \<lparr>m_id = ''3'', m_role = user, m_content = ''hi'', m_timestamp = Date 0,
      m_imageDataUrls = Some [''data:image/png;base64,AA''],
      m_fileTexts = Some [\<lparr>ft_name = ''a.txt'', ft_text = ''alpha''\<rparr>, \<lparr>ft_name = ''b.txt'', ft_text = ''beta''\<rparr>],
      m_otherFileNames = Some [''c.bin'', ''d.bin'']\<rparr>"

definition lastAnswer :: IChatMessage where
  "lastAnswer = \<lparr>m_id = ''4'', m_role = assistant, m_content = ''hello'', m_timestamp = Date 0,
      m_imageDataUrls = None, m_fileTexts = None, m_otherFileNames = None\<rparr>"

section \<open>Properties\<close>

lemma includes_str_sublist: "includes_str s p \<longleftrightarrow> sublist p s"
  by (induction s) (auto simp: sublist_Cons_right)

subsection \<open>The remote adapter once the user id is known\<close>


lemma getCurrentUserId_known:
  "userIdOf w = Some uid \<Longrightarrow> getCurrentUserId w = (Inr uid, w\<lparr>cachedUserId := Some uid\<rparr>)"
  by (auto simp: userIdOf_def getCurrentUserId_def split: option.splits)

lemma userIdOf_cached [simp]: "userIdOf (w\<lparr>cachedUserId := Some uid\<rparr>) = Some uid"
  by (simp add: userIdOf_def)

lemma getMyFileItems_known:
  "userIdOf w = Some uid \<Longrightarrow>
   getMyFileItems w =
     (Inr (if sp_listOk w
           then map (\<lambda>f. \<lparr>Name = sp_Name f, ServerRelativeUrl = sp_ServerRelativeUrl f\<rparr>)
                  (filter (\<lambda>f. sp_Name f \<noteq> []) (sp_files w))
           else []), w\<lparr>cachedUserId := Some uid\<rparr>)"
  by (simp add: getMyFileItems_def getCurrentUserId_known)



lemma find_item_Some:
  "find (\<lambda>f. Name f = n) (map (\<lambda>f. \<lparr>Name = sp_Name f, ServerRelativeUrl = sp_ServerRelativeUrl f\<rparr>)
                  (filter (\<lambda>f. sp_Name f \<noteq> []) fs)) = Some it \<Longrightarrow> Name it = n"
  by (auto simp: find_Some_iff)






lemma getChatsFromLibrary_known:
  assumes "userIdOf w = Some uid"
  shows "getChatsFromLibrary P w =
     (Inr (sortBy (byUpdatedAtDesc P) (concat (map (\<lambda>file'.
                        let raw = getFileContent (ServerRelativeUrl file') w
                        in if raw = RawText [] then []
                           else case raw of
                                  ChatJson chat \<Rightarrow> if c_id chat \<noteq> [] \<and> c_projectId chat \<noteq> [] then [chat] else []
                                | _ \<Rightarrow> [])
              (filter (\<lambda>f. startsWith (Name f) CHAT_FILE_PREFIX \<and> endsWith (Name f) FILE_EXT)
                 (if sp_listOk w
                   then map (\<lambda>f. \<lparr>Name = sp_Name f, ServerRelativeUrl = sp_ServerRelativeUrl f\<rparr>)
                          (filter (\<lambda>f. sp_Name f \<noteq> []) (sp_files w))
                   else []))))),
      w\<lparr>cachedUserId := Some uid\<rparr>)"
proof -
  have g: "getFileContent u (w\<lparr>cachedUserId := Some uid\<rparr>) = getFileContent u w" for u
    by (simp add: getFileContent_def)
  show ?thesis
    unfolding getChatsFromLibrary_def
    by (simp add: getMyFileItems_known[OF assms] Let_def g cong: if_cong)
qed



subsection \<open>Saving and loading\<close>

lemma set_insertBy: "set (insertBy cmp x ys) = insert x (set ys)"
  by (induction ys) auto

lemma set_sortBy: "set (sortBy cmp xs) = set xs"
  by (induction xs) (simp_all add: sortBy_def set_insertBy)

lemma conversions_roundtrip:
  assumes "validTimestamp P m"
  shows "\<exists>s. messageToStored P m = Inr s \<and> storedToMessage P s = m"
proof -
  from assms obtain t where t: "m_timestamp m = Date t" "newDate P (isoString P t) = Date t"
    by (auto simp: validTimestamp_def split: date.splits)
  then show ?thesis
    by (simp add: messageToStored_def storedToMessage_def toISOString_def)
qed

lemma messageToStored_invalid:
  "m_timestamp m = InvalidDate \<Longrightarrow> messageToStored P m = Inl (ErrorObj ''RangeError'' ''Invalid time value'')"
  by (simp add: messageToStored_def toISOString_def)

lemma local_roundtrip: "\<not> quotaExceeded ls \<Longrightarrow> getAllChats (saveAllChats cs ls) = cs"
  by (simp add: getAllChats_def saveAllChats_def)

lemma userIdOf_addFile [simp]: "userIdOf (addFile fu n b w) = userIdOf w"
  by (simp add: userIdOf_def addFile_def Let_def split: option.splits)

lemma addFile_fields [simp]:
  "sp_listOk (addFile fu n b w) = sp_listOk w" "sp_readOk (addFile fu n b w) = sp_readOk w"
  by (simp_all add: addFile_def Let_def)

lemma addFile_files:
  "sp_files (addFile fu n b w) =
     (let new = \<lparr>sp_Name = n, sp_ServerRelativeUrl = fu @ ''/'' @ n, sp_body = b\<rparr>
      in if list_ex (\<lambda>f. sp_Name f = n) (sp_files w)
         then map (\<lambda>f. if sp_Name f = n then new else f) (sp_files w)
         else sp_files w @ [new])"
  by (simp add: addFile_def Let_def)

lemma addFile_new_in:
  "\<lparr>sp_Name = n, sp_ServerRelativeUrl = fu @ ''/'' @ n, sp_body = b\<rparr> \<in> set (sp_files (addFile fu n b w))"
  by (auto simp: addFile_files Let_def list_ex_iff)

lemma addFile_named:
  "f \<in> set (sp_files (addFile fu n b w)) \<Longrightarrow> sp_Name f = n \<Longrightarrow>
   f = \<lparr>sp_Name = n, sp_ServerRelativeUrl = fu @ ''/'' @ n, sp_body = b\<rparr>"
  by (auto simp: addFile_files Let_def list_ex_iff split: if_splits)

lemma addFile_inPlace:
  assumes "list_all (fileInPlace fu) (sp_files w)"
    "fileInPlace fu \<lparr>sp_Name = n, sp_ServerRelativeUrl = fu @ ''/'' @ n, sp_body = b\<rparr>"
  shows "list_all (fileInPlace fu) (sp_files (addFile fu n b w))"
  using assms by (auto simp: addFile_files Let_def list_all_iff)

lemma getFileContent_inPlace:
  assumes "sp_readOk w" "list_all (fileInPlace fu) (sp_files w)" "f \<in> set (sp_files w)"
  shows "\<exists>g\<in>set (sp_files w). sp_Name g = sp_Name f \<and> getFileContent (sp_ServerRelativeUrl f) w = sp_body g"
proof -
  have "find (\<lambda>g. sp_ServerRelativeUrl g = sp_ServerRelativeUrl f) (sp_files w) \<noteq> None"
    using assms(3) by (auto simp: find_None_iff)
  then obtain g where g: "find (\<lambda>g. sp_ServerRelativeUrl g = sp_ServerRelativeUrl f) (sp_files w) = Some g"
    by blast
  then have gin: "g \<in> set (sp_files w)" and gurl: "sp_ServerRelativeUrl g = sp_ServerRelativeUrl f"
    by (auto simp: find_Some_iff)
  have "fu @ ''/'' @ sp_Name g = fu @ ''/'' @ sp_Name f"
    using assms(2,3) gin gurl by (auto simp: list_all_iff fileInPlace_def)
  then have "sp_Name g = sp_Name f" by simp
  moreover have "getFileContent (sp_ServerRelativeUrl f) w = sp_body g"
    using assms(1) g by (simp add: getFileContent_def)
  ultimately show ?thesis using gin by blast
qed

lemma chats_of_files_mem:
  "c \<in> set (concat (map (\<lambda>file'.
                        let raw = getFileContent (ServerRelativeUrl file') w
                        in if raw = RawText [] then []
                           else case raw of
                                  ChatJson chat \<Rightarrow> if c_id chat \<noteq> [] \<and> c_projectId chat \<noteq> [] then [chat] else []
                                | _ \<Rightarrow> [])
              (filter (\<lambda>f. startsWith (Name f) CHAT_FILE_PREFIX \<and> endsWith (Name f) FILE_EXT)
                 (map (\<lambda>f. \<lparr>Name = sp_Name f, ServerRelativeUrl = sp_ServerRelativeUrl f\<rparr>)
                          (filter (\<lambda>f. sp_Name f \<noteq> []) fs)))))
   \<longleftrightarrow> (\<exists>f\<in>set fs. sp_Name f \<noteq> [] \<and> startsWith (sp_Name f) CHAT_FILE_PREFIX \<and> endsWith (sp_Name f) FILE_EXT
          \<and> getFileContent (sp_ServerRelativeUrl f) w = ChatJson c \<and> c_id c \<noteq> [] \<and> c_projectId c \<noteq> [])"
proof -
  define chatsOfBody where "chatsOfBody = (\<lambda>raw.
     if raw = RawText [] then []
      else case raw of
             ChatJson chat \<Rightarrow> if c_id chat \<noteq> [] \<and> c_projectId chat \<noteq> [] then [chat] else []
           | _ \<Rightarrow> [])"
  have body_mem: "c \<in> set (chatsOfBody raw) \<longleftrightarrow> raw = ChatJson c \<and> c_id c \<noteq> [] \<and> c_projectId c \<noteq> []"
    for raw by (cases raw) (auto simp: chatsOfBody_def)
  have fold: "(\<lambda>file'.
                        let raw = getFileContent (ServerRelativeUrl file') w
                        in if raw = RawText [] then []
                           else case raw of
                                  ChatJson chat \<Rightarrow> if c_id chat \<noteq> [] \<and> c_projectId chat \<noteq> [] then [chat] else []
                                | _ \<Rightarrow> [])
      = (\<lambda>file'. chatsOfBody (getFileContent (ServerRelativeUrl file') w))"
    by (simp add: chatsOfBody_def Let_def)
  show ?thesis
    unfolding fold by (induction fs) (auto simp: body_mem)
qed

lemma chat_file_name_shape:
  "startsWith (CHAT_FILE_PREFIX @ i @ FILE_EXT) CHAT_FILE_PREFIX" "endsWith (CHAT_FILE_PREFIX @ i @ FILE_EXT) FILE_EXT"
  by (simp_all add: startsWith_def endsWith_def suffix_def)

lemma remote_roundtrip:
  assumes ready: "remoteReady fu w" and ids: "c_id chat \<noteq> []" "c_projectId chat \<noteq> []"
  shows "\<exists>w' w'' cs. saveChatToLibrary config chat w = (Inr (), w')
      \<and> getChatsFromLibrary P w' = (Inr cs, w'')
      \<and> chat \<in> set cs \<and> (\<forall>c\<in>set cs. c_id c = c_id chat \<longrightarrow> c = chat)"
proof -
  define n where "n = CHAT_FILE_PREFIX @ c_id chat @ FILE_EXT"
  define new where "new = \<lparr>sp_Name = n, sp_ServerRelativeUrl = fu @ ''/'' @ n, sp_body = ChatJson chat\<rparr>"
  define w' where "w' = addFile fu n (ChatJson chat) w"
  have save: "saveChatToLibrary config chat w = (Inr (), w')"
    using ready by (simp add: saveChatToLibrary_def getFolderServerRelativeUrl_def remoteReady_def
        Let_def w'_def n_def)
  from ready obtain uid where uid: "userIdOf w' = Some uid"
    by (auto simp: remoteReady_def w'_def)
  have ok: "sp_listOk w'" "sp_readOk w'"
    using ready by (simp_all add: remoteReady_def w'_def)
  have newOk: "fileInPlace fu new"
    by (simp add: fileInPlace_def new_def n_def)
  have inPlace: "list_all (fileInPlace fu) (sp_files w')"
    unfolding w'_def using ready newOk addFile_inPlace[of fu w n "ChatJson chat"]
    by (simp add: remoteReady_def new_def)
  have newIn: "new \<in> set (sp_files w')"
    unfolding w'_def new_def by (rule addFile_new_in)
  have named: "f = new" if "f \<in> set (sp_files w')" "sp_Name f = n" for f
    using that addFile_named[of f fu n "ChatJson chat" w] by (simp add: w'_def new_def)
  define cs where "cs = sortBy (byUpdatedAtDesc P) (concat (map (\<lambda>file'.
                        let raw = getFileContent (ServerRelativeUrl file') w'
                        in if raw = RawText [] then []
                           else case raw of
                                  ChatJson chat \<Rightarrow> if c_id chat \<noteq> [] \<and> c_projectId chat \<noteq> [] then [chat] else []
                                | _ \<Rightarrow> [])
              (filter (\<lambda>f. startsWith (Name f) CHAT_FILE_PREFIX \<and> endsWith (Name f) FILE_EXT)
                 (map (\<lambda>f. \<lparr>Name = sp_Name f, ServerRelativeUrl = sp_ServerRelativeUrl f\<rparr>)
                          (filter (\<lambda>f. sp_Name f \<noteq> []) (sp_files w'))))))"
  have load: "getChatsFromLibrary P w' = (Inr cs, w'\<lparr>cachedUserId := Some uid\<rparr>)"
    using ok by (simp add: getChatsFromLibrary_known[OF uid] cs_def)
  have mem: "c \<in> set cs \<longleftrightarrow>
      (\<exists>f\<in>set (sp_files w'). sp_Name f \<noteq> [] \<and> startsWith (sp_Name f) CHAT_FILE_PREFIX \<and> endsWith (sp_Name f) FILE_EXT
          \<and> getFileContent (sp_ServerRelativeUrl f) w' = ChatJson c \<and> c_id c \<noteq> [] \<and> c_projectId c \<noteq> [])" for c
    unfolding cs_def set_sortBy by (rule chats_of_files_mem)
  have content_new: "getFileContent (sp_ServerRelativeUrl new) w' = ChatJson chat"
  proof -
    from getFileContent_inPlace[OF ok(2) inPlace newIn] obtain g where
      g: "g \<in> set (sp_files w')" "sp_Name g = sp_Name new" "getFileContent (sp_ServerRelativeUrl new) w' = sp_body g"
      by blast
    then have "g = new" using named by (simp add: new_def)
    with g(3) show ?thesis by (simp add: new_def)
  qed
  have "chat \<in> set cs"
    unfolding mem using newIn content_new ids chat_file_name_shape[of "c_id chat"]
    by (intro bexI[of _ new]) (simp_all add: new_def n_def CHAT_FILE_PREFIX_def)
  moreover have "c = chat" if c: "c \<in> set cs" "c_id c = c_id chat" for c
  proof -
    from c(1) obtain f where f: "f \<in> set (sp_files w')" "getFileContent (sp_ServerRelativeUrl f) w' = ChatJson c"
      unfolding mem by blast
    from getFileContent_inPlace[OF ok(2) inPlace f(1)] f(2) obtain g where
      g: "g \<in> set (sp_files w')" "sp_body g = ChatJson c" by auto
    then have "sp_Name g = CHAT_FILE_PREFIX @ c_id c @ FILE_EXT"
      using inPlace by (auto simp: list_all_iff fileInPlace_def)
    then have "g = new" using named g(1) c(2) by (simp add: n_def)
    with g(2) show ?thesis by (simp add: new_def)
  qed
  ultimately show ?thesis using save load by blast
qed

subsection \<open>Sending: auxiliary facts\<close>

lemma startChatForSend_messages [simp]:
  "messages (startChatForSend P pr fr ut imgs st) = messages st"
  by (simp add: startChatForSend_def Let_def split: option.splits prod.splits sum.splits)

lemma startChatForSend_controllers [simp]:
  "controllers (startChatForSend P pr fr ut imgs st) = controllers st"
  by (simp add: startChatForSend_def Let_def split: option.splits prod.splits sum.splits)

lemma attachment_has_content:
  assumes "as \<noteq> []"
  shows "attachedImageDataUrls as \<noteq> [] \<or> attachedFileTexts as \<noteq> [] \<or> attachedOtherFileNames as \<noteq> []"
proof -
  from assms obtain a where a: "a \<in> set as" by (cases as) auto
  show ?thesis
  proof (cases "truthy (dataUrl a)")
    case True
    then have "filter (\<lambda>a. truthy (dataUrl a)) as \<noteq> []" using a by (auto simp: filter_empty_conv)
    then show ?thesis by (simp add: attachedImageDataUrls_def)
  next
    case False
    show ?thesis
    proof (cases "textContent a = None")
      case True
      then have "filter (\<lambda>a. \<not> truthy (dataUrl a) \<and> textContent a = None) as \<noteq> []"
        using a False by (auto simp: filter_empty_conv)
      then show ?thesis by (simp add: attachedOtherFileNames_def)
    next
      case False
      then have "filter (\<lambda>a. textContent a \<noteq> None) as \<noteq> []" using a by (auto simp: filter_empty_conv)
      then show ?thesis by (simp add: attachedFileTexts_def)
    qed
  qed
qed

lemma find_last_user:
  assumes "m_role u = user" "m_role a = assistant"
  shows "find (\<lambda>m. m_role m = user) (rev (pre @ [u, a])) = Some u"
  using assms by simp

lemma trim_key: "trim (apiKey localProps) \<noteq> []"
  by (simp add: localProps_def trim_def isWhiteSpace_def)

subsection \<open>The response: auxiliary facts\<close>

lemma setContent_fields [simp]:
  "controllers (setContent i c st) = controllers st" "loading (setContent i c st) = loading st"
  "map m_id (messages (setContent i c st)) = map m_id (messages st)"
  "map m_role (messages (setContent i c st)) = map m_role (messages st)"
  by (simp_all add: setContent_def)

lemma processLine_keeps:
  assumes "processLine J i (full, st) line = (full', st')"
  shows "controllers st' = controllers st \<and> map m_id (messages st') = map m_id (messages st)
       \<and> map m_role (messages st') = map m_role (messages st)"
  using assms by (auto simp: processLine_def Let_def split: if_splits option.splits)

lemma processLines_keeps:
  assumes "foldl (processLine J i) (full, st) ls = (full', st')"
  shows "controllers st' = controllers st \<and> map m_id (messages st') = map m_id (messages st)
       \<and> map m_role (messages st') = map m_role (messages st)"
  using assms
proof (induction ls arbitrary: full st)
  case Nil
  then show ?case by simp
next
  case (Cons l ls)
  obtain f1 s1 where s: "processLine J i (full, st) l = (f1, s1)" by fastforce
  with Cons.prems have "foldl (processLine J i) (f1, s1) ls = (full', st')" by simp
  from Cons.IH[OF this] processLine_keeps[OF s] show ?case by simp
qed

lemma onRead_chunk:
  assumes "\<not> isAborted op st"
  shows "\<exists>op' st'. onRead J (ReadChunk c) op st = (Some op', st')
     \<and> op_placeholderId op' = op_placeholderId op \<and> op_controller op' = op_controller op
     \<and> controllers st' = controllers st \<and> map m_id (messages st') = map m_id (messages st)
     \<and> map m_role (messages st') = map m_role (messages st)"
proof -
  obtain f1 s1 where s: "foldl (processLine J (op_placeholderId op)) (op_fullContent op, st)
      (butlast (splitOn (CHR 0x0A) (op_buffer op @ c))) = (f1, s1)" by fastforce
  from processLines_keeps[OF s] s assms show ?thesis
    by (simp add: onRead_def Let_def)
qed

lemma runReads_chunks:
  assumes "\<not> isAborted op st"
  shows "\<exists>op' st'. runReads J (map ReadChunk cs) op st = (Some op', st')
     \<and> op_placeholderId op' = op_placeholderId op \<and> op_controller op' = op_controller op
     \<and> controllers st' = controllers st \<and> map m_id (messages st') = map m_id (messages st)
     \<and> map m_role (messages st') = map m_role (messages st)"
  using assms
proof (induction cs arbitrary: op st)
  case Nil
  then show ?case by simp
next
  case (Cons c cs)
  from onRead_chunk[OF Cons.prems, of J c] obtain op1 st1 where
    1: "onRead J (ReadChunk c) op st = (Some op1, st1)"
      "op_placeholderId op1 = op_placeholderId op" "op_controller op1 = op_controller op"
      "controllers st1 = controllers st" "map m_id (messages st1) = map m_id (messages st)"
      "map m_role (messages st1) = map m_role (messages st)"
    by blast
  have "\<not> isAborted op1 st1" using Cons.prems 1 by (simp add: isAborted_def)
  from Cons.IH[OF this] 1 show ?case by simp
qed

lemma runReads_append:
  "runReads J xs op st = (Some op', st') \<Longrightarrow> runReads J (xs @ ys) op st = runReads J ys op' st'"
  by (induction xs arbitrary: op st) (auto split: prod.splits option.splits)

lemma onRead_done_blank:
  assumes "\<not> isAborted op st" "trim (op_fullContent op) = []"
  shows "onRead J ReadDone op st =
     (None, finallyBlock (setContent (op_placeholderId op) ''No response.'' st))"
  using assms by (simp add: onRead_def)

lemma sendMessage_sent:
  assumes "sendMessage P pr fr regen st = (st1, Some (req, op))"
  shows "op_placeholderId op = placeholderId fr \<and> \<not> isAborted op st1 \<and> loading st1
     \<and> abortRef st1 = Some (op_controller op) \<and> op_controller op < length (controllers st1)
     \<and> messages st1 \<noteq> [] \<and> m_id (last (messages st1)) = placeholderId fr
     \<and> m_role (last (messages st1)) = assistant
     \<and> op_buffer op = [] \<and> op_fullContent op = []"
proof -
  have "trim (apiKey pr) \<noteq> []"
    using assms by (auto simp: sendMessage_def)
  then show ?thesis
    using assms
    unfolding sendMessage_def Let_def
    by (auto simp: isAborted_def nth_append split: if_splits)
qed

lemma last_ids:
  assumes "map m_id xs = map m_id ys" "map m_role xs = map m_role ys" "ys \<noteq> []"
  shows "xs \<noteq> [] \<and> m_id (last xs) = m_id (last ys) \<and> m_role (last xs) = m_role (last ys)"
proof -
  have ne: "xs \<noteq> []" using assms(1,3) by auto
  have "m_id (last xs) = last (map m_id xs)" "m_role (last xs) = last (map m_role xs)"
    using ne by (simp_all add: last_map)
  moreover have "m_id (last ys) = last (map m_id ys)" "m_role (last ys) = last (map m_role ys)"
    using assms(3) by (simp_all add: last_map)
  ultimately show ?thesis using assms ne by simp
qed

lemma sendMessage_goes:
  assumes "trim (apiKey pr) \<noteq> []" "\<not> loading st" "trim (input st) \<noteq> []"
  shows "\<exists>st1 req op. sendMessage P pr fr False st = (st1, Some (req, op))"
  using assms unfolding sendMessage_def Let_def by simp

subsection \<open>Abort: auxiliary facts\<close>

lemma newChat_controllers:
  "controllers (newChat P pr fr st) = controllers (abortCurrent st)"
  by (simp add: newChat_def Let_def setCurrentChatId_def split: option.splits prod.splits sum.splits)

lemma abortCurrent_aborts:
  "abortRef st = Some (op_controller op) \<Longrightarrow> op_controller op < length (controllers st) \<Longrightarrow>
   isAborted op (abortCurrent st)"
  by (simp add: abortCurrent_def isAborted_def)

lemma abortCurrent_keeps:
  assumes a: "isAborted op st"
  shows "isAborted op (abortCurrent st)"
proof (cases "abortRef st")
  case None
  then show ?thesis using a by (simp add: abortCurrent_def)
next
  case (Some i)
  from a have "(controllers st)[i := True] ! op_controller op"
    by (cases "i = op_controller op") (simp_all add: isAborted_def)
  then show ?thesis using a Some by (simp add: abortCurrent_def isAborted_def)
qed

lemma isAborted_cong: "controllers st' = controllers st \<Longrightarrow> isAborted op st' = isAborted op st"
  by (simp add: isAborted_def)

lemma sendMessage_controllers:
  "controllers (fst (sendMessage P pr fr regen st)) = controllers st
   \<or> controllers (fst (sendMessage P pr fr regen st)) = controllers st @ [False]"
  unfolding sendMessage_def Let_def
  by (simp split: option.splits)

lemma sendMessage_keeps: "isAborted op st \<Longrightarrow> isAborted op (fst (sendMessage P pr fr regen st))"
  using sendMessage_controllers[of P pr fr regen st]
  by (auto simp: isAborted_def nth_append)

lemma sendMessage_loading:
  assumes "loading st"
  shows "snd (sendMessage P pr fr regen st) = None
     \<and> controllers (fst (sendMessage P pr fr regen st)) = controllers st
     \<and> abortRef (fst (sendMessage P pr fr regen st)) = abortRef st
     \<and> loading (fst (sendMessage P pr fr regen st))"
  using assms unfolding sendMessage_def Let_def
  by (simp split: option.splits)

lemma sendMessage_loading_plain:
  assumes "loading st" "trim (apiKey pr) \<noteq> []"
  shows "sendMessage P pr fr False st = (st, None)"
  using assms unfolding sendMessage_def Let_def
  by simp

lemma catchError_controllers [simp]: "controllers (catchError e op st) = controllers st"
  by (simp add: catchError_def Let_def)

lemma finallyBlock_fields [simp]:
  "controllers (finallyBlock st) = controllers st" "messages (finallyBlock st) = messages st"
  by (simp_all add: finallyBlock_def)

lemma onRead_controllers: "controllers (snd (onRead J r op st)) = controllers st"
proof (cases "isAborted op st")
  case True
  then show ?thesis by (simp add: onRead_def)
next
  case False
  show ?thesis
  proof (cases r)
    case (ReadChunk c)
    from onRead_chunk[OF False, of J c] show ?thesis using ReadChunk by auto
  next
    case ReadDone
    then show ?thesis using False by (simp add: onRead_def Let_def)
  next
    case (ReadRejected e)
    then show ?thesis using False by (simp add: onRead_def)
  qed
qed

lemma onFetched_controllers: "controllers (snd (onFetched J f op st)) = controllers st"
  by (simp add: onFetched_def split: fetched.splits response.splits)

lemma handleSelectChat_controllers [simp]: "controllers (handleSelectChat c st) = controllers st"
  by (simp add: handleSelectChat_def setCurrentChatId_def)

lemma streaming_values:
  "streamingState = initialState\<lparr>messages :=
       [\<lparr>m_id = ''0-u'', m_role = user, m_content = ''hi'', m_timestamp = Date 0,
         m_imageDataUrls = None, m_fileTexts = None, m_otherFileNames = None\<rparr>,
        \<lparr>m_id = ''0-a'', m_role = assistant, m_content = [], m_timestamp = Date 0,
         m_imageDataUrls = None, m_fileTexts = None, m_otherFileNames = None\<rparr>],
      loading := True, controllers := [False], abortRef := Some 0\<rparr>"
  "streamingOperation = \<lparr>op_placeholderId = ''0-a'', op_controller = 0, op_buffer = [], op_fullContent = []\<rparr>"
  unfolding streamingState_def streamingOperation_def sendMessage_def Let_def
  by (simp_all add: initialState_def localProps_def someFresh_def trim_def isWhiteSpace_def
      attachedImageDataUrls_def attachedFileTexts_def attachedOtherFileNames_def undefinedIfEmpty_def
      startChatForSend_def truthy_def)

subsection \<open>Deleting a project: auxiliary facts\<close>

text \<open>
  On the local adapter the cascade is complete: after a project is deleted, no chat of it is left
  in the storage, in \<open>allChats\<close> or in \<open>chats\<close>, whichever project is selected.
\<close>

lemma endsWith_rev: "endsWith s p = prefix (rev p) (rev s)"
  by (simp add: endsWith_def suffix_to_prefix)

lemma numberToString_7: "numberToString 7 = ''7''"
  by code_simp

lemma twoProjects_loaded:
  "fst (getProjectsFromLibrary twoProjectsLibrary) = Inr [defaultProject, otherProject]"
  "fst (getChatsFromLibrary epochPlatform twoProjectsLibrary) = Inr [defaultChat, otherChat]"
  by (simp_all add: getProjectsFromLibrary_def getChatsFromLibrary_def getMyFileItems_def
      getCurrentUserId_def getFileContent_def twoProjectsLibrary_def emptyLibrary_def
      PROJECTS_FILE_PREFIX_def CHAT_FILE_PREFIX_def FILE_EXT_def startsWith_def endsWith_rev
      numberToString_7 sortBy_def byUpdatedAtDesc_def getTime_def epochPlatform_def
      defaultChat_def otherChat_def newChatRecord_def Let_def)

lemma afterProjectDeleted_keeps:
  "getAllChats (storage (afterProjectDeleted p remaining nextAll st0 st)) = getAllChats (storage st)"
  "allChats (afterProjectDeleted p remaining nextAll st0 st) = allChats st"
  "chats (afterProjectDeleted p remaining nextAll st0 st) = chats st"
  by (simp_all add: afterProjectDeleted_def setCurrentChatId_def setCurrentProjectId_def
      persistChatId_def persistProjectId_def getAllChats_def split: list.splits)

lemma handleDeleteProject_local_cascade:
  assumes "spConfig pr = None" "\<not> quotaExceeded (storage st)"
  shows "list_all (\<lambda>c. c_projectId c \<noteq> p_id p) (getAllChats (storage (handleDeleteProject pr True p st)))
     \<and> list_all (\<lambda>c. c_projectId c \<noteq> p_id p) (allChats (handleDeleteProject pr True p st))
     \<and> list_all (\<lambda>c. c_projectId c \<noteq> p_id p) (chats (handleDeleteProject pr True p st))"
proof -
  have q: "\<not> quotaExceeded (saveProjects ps (storage st))" for ps
    using assms(2) by (simp add: saveProjects_def)
  have g: "getAllChats (saveAllChats cs (saveProjects ps (storage st))) = cs" for cs ps
    using local_roundtrip[OF q] .
  show ?thesis
    using assms(1)
    by (simp add: handleDeleteProject_def Let_def afterProjectDeleted_keeps g list_all_iff)
qed

subsection \<open>The character budget of one batch of attachments\<close>

lemma truncateToBudget_length:
  "tot < MAX_TOTAL_TEXT_CHARS \<Longrightarrow>
   tot + length (truncateToBudget t tot) \<le> MAX_TOTAL_TEXT_CHARS + length truncationMarker"
  by (auto simp: truncateToBudget_def)

lemma textBranch_step:
  assumes "textBranch dec f tot = (a, tot')" "tot < MAX_TOTAL_TEXT_CHARS"
    "\<And>t. dec f = Inr t \<Longrightarrow> decodedBy d f t"
  shows "tot' = tot + textLength a \<and> stepOk d tot a"
  using assms
  by (auto simp: textBranch_def caught_def bare_def textLength_def stepOk_def Let_def split: sum.splits)

lemma extractOne_step:
  assumes "extractOne d f tot = (a, tot')"
  shows "tot' = tot + textLength a \<and> stepOk d tot a"
proof -
  have img: "isImageFile f \<Longrightarrow> ?thesis"
    using assms by (auto simp: extractOne_def caught_def bare_def textLength_def stepOk_def split: sum.splits)
  have rest: "\<not> isImageFile f \<Longrightarrow> ?thesis"
    using assms
    by (auto simp: extractOne_def split: if_splits
          dest!: textBranch_step[where d=d] simp: decodedBy_def)
        (auto simp: bare_def textLength_def stepOk_def)
  from img rest show ?thesis by blast
qed

lemma truncationMarker_length: "length truncationMarker = 15"
  by (simp add: truncationMarker_def)

lemma stepOk_bound:
  assumes "stepOk d tot a" "tot \<le> MAX_TOTAL_TEXT_CHARS + 15"
  shows "tot + textLength a \<le> MAX_TOTAL_TEXT_CHARS + 15"
proof (cases "textContent a")
  case None
  then show ?thesis using assms by (simp add: textLength_def)
next
  case (Some t)
  then obtain src where "tot < MAX_TOTAL_TEXT_CHARS" "t = truncateToBudget src tot"
    using assms(1) by (auto simp: stepOk_def)
  then show ?thesis
    using truncateToBudget_length[of tot src] Some
    by (simp add: textLength_def truncationMarker_length)
qed

lemma runningOk_snoc:
  assumes "runningOk d as" "stepOk d (sum_list (map textLength as)) a"
  shows "runningOk d (as @ [a])"
  unfolding runningOk_def
proof (intro allI impI)
  fix i assume "i < length (as @ [a])"
  then consider "i < length as" | "i = length as" by fastforce
  then show "stepOk d (sum_list (map textLength (take i (as @ [a])))) ((as @ [a]) ! i)"
  proof cases
    case 1
    then show ?thesis using assms(1) by (simp add: runningOk_def nth_append)
  next
    case 2
    then show ?thesis using assms(2) by simp
  qed
qed

lemma extractLoop_inv:
  assumes "extractLoop d fs acc tot = (batch, tot')"
    "sum_list (map textLength acc) = tot" "tot \<le> MAX_TOTAL_TEXT_CHARS + 15" "runningOk d acc"
  shows "sum_list (map textLength batch) = tot' \<and> tot' \<le> MAX_TOTAL_TEXT_CHARS + 15 \<and> runningOk d batch"
  using assms
proof (induction fs arbitrary: acc tot)
  case Nil
  then show ?case by simp
next
  case (Cons f fs)
  show ?case
  proof (cases "length acc < MAX_FILES_PER_MESSAGE")
    case False
    then show ?thesis using Cons.prems by simp
  next
    case True
    note room = this
    show ?thesis
    proof (cases "file_size f >
                (if isImageFile f then MAX_IMAGE_SIZE_MB * 1024 * 1024 else MAX_FILE_SIZE_MB * 1024 * 1024)")
      case True
      then have "extractLoop d fs acc tot = (batch, tot')"
        using Cons.prems(1) room by simp
      then show ?thesis using Cons.IH Cons.prems by blast
    next
      case False
      obtain a t1 where one: "extractOne d f tot = (a, t1)" by fastforce
      have loop: "extractLoop d fs (acc @ [a]) t1 = (batch, tot')"
        using Cons.prems(1) room False one by simp
      from extractOne_step[OF one] have s: "t1 = tot + textLength a" "stepOk d tot a" by simp_all
      have 1: "sum_list (map textLength (acc @ [a])) = t1" using s Cons.prems(2) by simp
      have 2: "t1 \<le> MAX_TOTAL_TEXT_CHARS + 15" using stepOk_bound s Cons.prems(3) by simp
      have 3: "runningOk d (acc @ [a])"
        using runningOk_snoc Cons.prems(4) s(2) Cons.prems(2) by simp
      from Cons.IH[OF loop 1 2 3] show ?thesis .
    qed
  qed
qed

lemma extractLoop_length:
  "length (fst (extractLoop d fs acc tot)) \<le> max (length acc) MAX_FILES_PER_MESSAGE"
proof (induction fs arbitrary: acc tot)
  case Nil
  then show ?case by simp
next
  case (Cons f fs)
  show ?case
  proof (cases "length acc < MAX_FILES_PER_MESSAGE")
    case False
    then show ?thesis by simp
  next
    case True
    obtain a t1 where one: "extractOne d f tot = (a, t1)" by fastforce
    have "length (fst (extractLoop d fs (acc @ [a]) t1)) \<le> max (length (acc @ [a])) MAX_FILES_PER_MESSAGE"
      by (rule Cons.IH)
    moreover have "length (fst (extractLoop d fs acc tot)) \<le> max (length acc) MAX_FILES_PER_MESSAGE"
      by (rule Cons.IH)
    ultimately show ?thesis using True one by (auto simp: max_def split: if_splits)
  qed
qed

lemma onFileChange_batch: "fst (onFileChange d files ([], e)) = fst (extractLoop d files [] 0)"
proof -
  have "length (fst (extractLoop d files [] 0)) \<le> MAX_FILES_PER_MESSAGE"
    using extractLoop_length[of d files "[]" 0] by simp
  then show ?thesis by (simp add: onFileChange_def Let_def)
qed

lemma extractOne_file:
  assumes "extractOne d f tot = (a, tot')"
  shows "att_file a = f"
  using assms
  by (auto simp: extractOne_def textBranch_def caught_def bare_def Let_def split: if_splits sum.splits)

lemma textBranch_text:
  assumes "textBranch dec f tot = (a, tot')" "dec f = Inr src"
  shows "textContent a = Some (truncateToBudget src tot)"
  using assms by (auto simp: textBranch_def bare_def Let_def)

lemma extractOne_text:
  assumes one: "extractOne d f tot = (a, tot')" and doc: "\<not> isImageFile f" and room: "tot < MAX_TOTAL_TEXT_CHARS"
  shows "(isPdfFile f \<and> pdfToText d f = Inr src \<longrightarrow> textContent a = Some (truncateToBudget src tot))
       \<and> (\<not> isPdfFile f \<and> isDocxFile f \<and> docxToText d f = Inr src
            \<longrightarrow> textContent a = Some (truncateToBudget src tot))
       \<and> (\<not> isPdfFile f \<and> \<not> isDocxFile f \<and> isXlsxFile f \<and> xlsxToText d f = Inr src
            \<longrightarrow> textContent a = Some (truncateToBudget src tot))
       \<and> (\<not> isPdfFile f \<and> \<not> isDocxFile f \<and> \<not> isXlsxFile f \<and> isLikelyTextFile f \<and> fileToText d f = Inr src
            \<longrightarrow> textContent a = Some (truncateToBudget src tot))"
proof (intro conjI impI)
  assume "isPdfFile f \<and> pdfToText d f = Inr src"
  then show "textContent a = Some (truncateToBudget src tot)"
    using one doc room textBranch_text[of "pdfToText d" f tot a tot' src] by (simp add: extractOne_def)
next
  assume "\<not> isPdfFile f \<and> isDocxFile f \<and> docxToText d f = Inr src"
  then show "textContent a = Some (truncateToBudget src tot)"
    using one doc room textBranch_text[of "docxToText d" f tot a tot' src] by (simp add: extractOne_def)
next
  assume "\<not> isPdfFile f \<and> \<not> isDocxFile f \<and> isXlsxFile f \<and> xlsxToText d f = Inr src"
  then show "textContent a = Some (truncateToBudget src tot)"
    using one doc room textBranch_text[of "xlsxToText d" f tot a tot' src] by (simp add: extractOne_def)
next
  assume "\<not> isPdfFile f \<and> \<not> isDocxFile f \<and> \<not> isXlsxFile f \<and> isLikelyTextFile f \<and> fileToText d f = Inr src"
  then show "textContent a = Some (truncateToBudget src tot)"
    using one doc room textBranch_text[of "fileToText d" f tot a tot' src] by (simp add: extractOne_def)
qed

lemma extractLoop_running:
  assumes step: "\<And>f tot a tot'. extractOne d f tot = (a, tot') \<Longrightarrow> Q tot a"
    and loop: "extractLoop d fs acc tot = (batch, tot')"
    and sum: "sum_list (map textLength acc) = tot"
    and acc: "\<forall>i<length acc. Q (sum_list (map textLength (take i acc))) (acc ! i)"
  shows "\<forall>i<length batch. Q (sum_list (map textLength (take i batch))) (batch ! i)"
  using loop sum acc
proof (induction fs arbitrary: acc tot)
  case Nil
  then show ?case by simp
next
  case (Cons f fs)
  show ?case
  proof (cases "length acc < MAX_FILES_PER_MESSAGE")
    case False
    then show ?thesis using Cons.prems by simp
  next
    case True
    note room = this
    show ?thesis
    proof (cases "file_size f >
                (if isImageFile f then MAX_IMAGE_SIZE_MB * 1024 * 1024 else MAX_FILE_SIZE_MB * 1024 * 1024)")
      case True
      then have "extractLoop d fs acc tot = (batch, tot')"
        using Cons.prems(1) room by simp
      then show ?thesis using Cons.IH Cons.prems by blast
    next
      case False
      obtain a t1 where one: "extractOne d f tot = (a, t1)" by fastforce
      have next_loop: "extractLoop d fs (acc @ [a]) t1 = (batch, tot')"
        using Cons.prems(1) room False one by simp
      from extractOne_step[OF one] have t1: "t1 = tot + textLength a" by simp
      have 1: "sum_list (map textLength (acc @ [a])) = t1" using t1 Cons.prems(2) by simp
      have q: "Q (sum_list (map textLength acc)) a" using step[OF one] Cons.prems(2) by simp
      have 2: "\<forall>i<length (acc @ [a]). Q (sum_list (map textLength (take i (acc @ [a])))) ((acc @ [a]) ! i)"
      proof (intro allI impI)
        fix i assume "i < length (acc @ [a])"
        then consider "i < length acc" | "i = length acc" by fastforce
        then show "Q (sum_list (map textLength (take i (acc @ [a])))) ((acc @ [a]) ! i)"
        proof cases
          case 1
          then show ?thesis using Cons.prems(3) by (simp add: nth_append)
        next
          case 2
          then show ?thesis using q by simp
        qed
      qed
      from Cons.IH[OF next_loop 1 2] show ?thesis .
    qed
  qed
qed

lemma extractLoop_files:
  assumes "length acc \<le> MAX_FILES_PER_MESSAGE"
  shows "map att_file (fst (extractLoop d fs acc tot)) =
     take MAX_FILES_PER_MESSAGE (map att_file acc @
       filter (\<lambda>f. \<not> file_size f >
                (if isImageFile f then MAX_IMAGE_SIZE_MB * 1024 * 1024 else MAX_FILE_SIZE_MB * 1024 * 1024)) fs)"
  using assms
proof (induction fs arbitrary: acc tot)
  case Nil
  then show ?case by simp
next
  case (Cons f fs)
  show ?case
  proof (cases "length acc < MAX_FILES_PER_MESSAGE")
    case False
    then have "length acc = MAX_FILES_PER_MESSAGE" using Cons.prems by simp
    then show ?thesis by simp
  next
    case True
    note room = this
    show ?thesis
    proof (cases "file_size f >
                (if isImageFile f then MAX_IMAGE_SIZE_MB * 1024 * 1024 else MAX_FILE_SIZE_MB * 1024 * 1024)")
      case True
      then show ?thesis using room Cons.IH[OF Cons.prems] by simp
    next
      case False
      obtain a t1 where one: "extractOne d f tot = (a, t1)" by fastforce
      have len: "length (acc @ [a]) \<le> MAX_FILES_PER_MESSAGE" using room by simp
      have "att_file a = f" using extractOne_file[OF one] .
      then show ?thesis using room False one Cons.IH[OF len, of t1] by simp
    qed
  qed
qed

text \<open>
  C1 (as amended). For every batch of files one add operation processes (the attachments
  \<open>onFileChange\<close> adds, all of them kept when none was attached before): the attachments are the
  files within their size limit, in order, ten at most. \<open>totalChars\<close> is the sum of the lengths of
  the extracted texts of the attachments, and it never exceeds \<open>MAX_TOTAL_TEXT_CHARS\<close> plus the 15
  characters of one truncation marker (80015). A document (PDF, Word, Excel or text, in this
  order of the tests) that its decoder decodes while the running sum before it is below the
  budget receives text: the decoded text whole when it is not longer than the rest of the budget,
  else exactly the rest of the budget of it with the marker appended. An attachment carries
  extracted text only if the running sum before it was below the budget, and then it is such a
  text. Once the running sum has reached the budget, every later file of the batch receives no
  extracted text.
\<close>

theorem onFileChange_budget:
  assumes "extractLoop d files [] 0 = (batch, tot)"
  shows "fst (onFileChange d files ([], e)) = batch
     \<and> map att_file batch =
         take MAX_FILES_PER_MESSAGE
           (filter (\<lambda>f. \<not> file_size f >
                (if isImageFile f then MAX_IMAGE_SIZE_MB * 1024 * 1024 else MAX_FILE_SIZE_MB * 1024 * 1024)) files)
     \<and> sum_list (map textLength batch) = tot
     \<and> tot \<le> MAX_TOTAL_TEXT_CHARS + 15
     \<and> (\<forall>i<length batch. \<forall>src.
          (let before = sum_list (map textLength (take i batch)); f = att_file (batch ! i);
               cut = (if length src > MAX_TOTAL_TEXT_CHARS - before
                      then take (MAX_TOTAL_TEXT_CHARS - before) src @ truncationMarker
                      else src)
           in \<not> isImageFile f \<and> before < MAX_TOTAL_TEXT_CHARS \<longrightarrow>
                (isPdfFile f \<and> pdfToText d f = Inr src \<longrightarrow> textContent (batch ! i) = Some cut)
              \<and> (\<not> isPdfFile f \<and> isDocxFile f \<and> docxToText d f = Inr src
                   \<longrightarrow> textContent (batch ! i) = Some cut)
              \<and> (\<not> isPdfFile f \<and> \<not> isDocxFile f \<and> isXlsxFile f \<and> xlsxToText d f = Inr src
                   \<longrightarrow> textContent (batch ! i) = Some cut)
              \<and> (\<not> isPdfFile f \<and> \<not> isDocxFile f \<and> \<not> isXlsxFile f \<and> isLikelyTextFile f
                     \<and> fileToText d f = Inr src
                   \<longrightarrow> textContent (batch ! i) = Some cut)))
     \<and> (\<forall>i<length batch. \<forall>t. textContent (batch ! i) = Some t \<longrightarrow>
          (let before = sum_list (map textLength (take i batch)); f = att_file (batch ! i)
           in before < MAX_TOTAL_TEXT_CHARS
              \<and> (\<exists>src. Inr src \<in> {pdfToText d f, docxToText d f, xlsxToText d f, fileToText d f}
                    \<and> t = (if length src > MAX_TOTAL_TEXT_CHARS - before
                           then take (MAX_TOTAL_TEXT_CHARS - before) src @ truncationMarker
                           else src))))
     \<and> (\<forall>i<length batch. MAX_TOTAL_TEXT_CHARS \<le> sum_list (map textLength (take i batch)) \<longrightarrow>
          textContent (batch ! i) = None)"
proof -
  have inv: "sum_list (map textLength batch) = tot \<and> tot \<le> MAX_TOTAL_TEXT_CHARS + 15 \<and> runningOk d batch"
    using extractLoop_inv[OF assms] by (simp add: runningOk_def)
  have a: "\<forall>i<length batch. \<forall>t. textContent (batch ! i) = Some t \<longrightarrow>
          (let before = sum_list (map textLength (take i batch)); f = att_file (batch ! i)
           in before < MAX_TOTAL_TEXT_CHARS
              \<and> (\<exists>src. Inr src \<in> {pdfToText d f, docxToText d f, xlsxToText d f, fileToText d f}
                    \<and> t = (if length src > MAX_TOTAL_TEXT_CHARS - before
                           then take (MAX_TOTAL_TEXT_CHARS - before) src @ truncationMarker
                           else src)))"
  proof (intro allI impI)
    fix i t assume i: "i < length batch" and t: "textContent (batch ! i) = Some t"
    from inv i have "stepOk d (sum_list (map textLength (take i batch))) (batch ! i)"
      by (simp add: runningOk_def)
    with t show "let before = sum_list (map textLength (take i batch)); f = att_file (batch ! i)
           in before < MAX_TOTAL_TEXT_CHARS
              \<and> (\<exists>src. Inr src \<in> {pdfToText d f, docxToText d f, xlsxToText d f, fileToText d f}
                    \<and> t = (if length src > MAX_TOTAL_TEXT_CHARS - before
                           then take (MAX_TOTAL_TEXT_CHARS - before) src @ truncationMarker
                           else src))"
      by (simp add: stepOk_def decodedBy_def truncateToBudget_def Let_def)
  qed
  have b: "\<forall>i<length batch. MAX_TOTAL_TEXT_CHARS \<le> sum_list (map textLength (take i batch)) \<longrightarrow>
          textContent (batch ! i) = None"
  proof (intro allI impI)
    fix i assume i: "i < length batch"
      and full: "MAX_TOTAL_TEXT_CHARS \<le> sum_list (map textLength (take i batch))"
    show "textContent (batch ! i) = None"
    proof (cases "textContent (batch ! i)")
      case None
      then show ?thesis .
    next
      case (Some t)
      with a i have "sum_list (map textLength (take i batch)) < MAX_TOTAL_TEXT_CHARS"
        by (simp add: Let_def)
      with full show ?thesis by simp
    qed
  qed
  have c: "fst (onFileChange d files ([], e)) = batch"
    using assms by (simp add: onFileChange_batch)
  have fs: "map att_file batch =
         take MAX_FILES_PER_MESSAGE
           (filter (\<lambda>f. \<not> file_size f >
                (if isImageFile f then MAX_IMAGE_SIZE_MB * 1024 * 1024 else MAX_FILE_SIZE_MB * 1024 * 1024)) files)"
    using extractLoop_files[of "[]" d files 0] assms by simp
  define Q :: "nat \<Rightarrow> attachment \<Rightarrow> bool" where "Q = (\<lambda>before a. \<forall>src.
       \<not> isImageFile (att_file a) \<and> before < MAX_TOTAL_TEXT_CHARS \<longrightarrow>
                (isPdfFile (att_file a) \<and> pdfToText d (att_file a) = Inr src
                   \<longrightarrow> textContent a = Some (truncateToBudget src before))
              \<and> (\<not> isPdfFile (att_file a) \<and> isDocxFile (att_file a) \<and> docxToText d (att_file a) = Inr src
                   \<longrightarrow> textContent a = Some (truncateToBudget src before))
              \<and> (\<not> isPdfFile (att_file a) \<and> \<not> isDocxFile (att_file a) \<and> isXlsxFile (att_file a)
                     \<and> xlsxToText d (att_file a) = Inr src
                   \<longrightarrow> textContent a = Some (truncateToBudget src before))
              \<and> (\<not> isPdfFile (att_file a) \<and> \<not> isDocxFile (att_file a) \<and> \<not> isXlsxFile (att_file a)
                     \<and> isLikelyTextFile (att_file a) \<and> fileToText d (att_file a) = Inr src
                   \<longrightarrow> textContent a = Some (truncateToBudget src before)))"
  have step: "Q t0 a0" if one: "extractOne d f0 t0 = (a0, t1)" for f0 t0 a0 t1
    unfolding Q_def
  proof (intro allI impI)
    fix src assume h: "\<not> isImageFile (att_file a0) \<and> t0 < MAX_TOTAL_TEXT_CHARS"
    have f: "att_file a0 = f0" using extractOne_file[OF one] .
    from h f have "\<not> isImageFile f0" "t0 < MAX_TOTAL_TEXT_CHARS" by simp_all
    from extractOne_text[OF one this, of src] f
    show "(isPdfFile (att_file a0) \<and> pdfToText d (att_file a0) = Inr src
                   \<longrightarrow> textContent a0 = Some (truncateToBudget src t0))
              \<and> (\<not> isPdfFile (att_file a0) \<and> isDocxFile (att_file a0) \<and> docxToText d (att_file a0) = Inr src
                   \<longrightarrow> textContent a0 = Some (truncateToBudget src t0))
              \<and> (\<not> isPdfFile (att_file a0) \<and> \<not> isDocxFile (att_file a0) \<and> isXlsxFile (att_file a0)
                     \<and> xlsxToText d (att_file a0) = Inr src
                   \<longrightarrow> textContent a0 = Some (truncateToBudget src t0))
              \<and> (\<not> isPdfFile (att_file a0) \<and> \<not> isDocxFile (att_file a0) \<and> \<not> isXlsxFile (att_file a0)
                     \<and> isLikelyTextFile (att_file a0) \<and> fileToText d (att_file a0) = Inr src
                   \<longrightarrow> textContent a0 = Some (truncateToBudget src t0))"
      by simp
  qed
  have run: "\<forall>i<length batch. Q (sum_list (map textLength (take i batch))) (batch ! i)"
    using extractLoop_running[of d Q files "[]" 0 batch tot, OF step assms] by simp
  have g: "\<forall>i<length batch. \<forall>src.
          (let before = sum_list (map textLength (take i batch)); f = att_file (batch ! i);
               cut = (if length src > MAX_TOTAL_TEXT_CHARS - before
                      then take (MAX_TOTAL_TEXT_CHARS - before) src @ truncationMarker
                      else src)
           in \<not> isImageFile f \<and> before < MAX_TOTAL_TEXT_CHARS \<longrightarrow>
                (isPdfFile f \<and> pdfToText d f = Inr src \<longrightarrow> textContent (batch ! i) = Some cut)
              \<and> (\<not> isPdfFile f \<and> isDocxFile f \<and> docxToText d f = Inr src
                   \<longrightarrow> textContent (batch ! i) = Some cut)
              \<and> (\<not> isPdfFile f \<and> \<not> isDocxFile f \<and> isXlsxFile f \<and> xlsxToText d f = Inr src
                   \<longrightarrow> textContent (batch ! i) = Some cut)
              \<and> (\<not> isPdfFile f \<and> \<not> isDocxFile f \<and> \<not> isXlsxFile f \<and> isLikelyTextFile f
                     \<and> fileToText d f = Inr src
                   \<longrightarrow> textContent (batch ! i) = Some cut))"
  proof (intro allI impI)
    fix i src assume i: "i < length batch"
    from run i have "Q (sum_list (map textLength (take i batch))) (batch ! i)" by simp
    then show "let before = sum_list (map textLength (take i batch)); f = att_file (batch ! i);
               cut = (if length src > MAX_TOTAL_TEXT_CHARS - before
                      then take (MAX_TOTAL_TEXT_CHARS - before) src @ truncationMarker
                      else src)
           in \<not> isImageFile f \<and> before < MAX_TOTAL_TEXT_CHARS \<longrightarrow>
                (isPdfFile f \<and> pdfToText d f = Inr src \<longrightarrow> textContent (batch ! i) = Some cut)
              \<and> (\<not> isPdfFile f \<and> isDocxFile f \<and> docxToText d f = Inr src
                   \<longrightarrow> textContent (batch ! i) = Some cut)
              \<and> (\<not> isPdfFile f \<and> \<not> isDocxFile f \<and> isXlsxFile f \<and> xlsxToText d f = Inr src
                   \<longrightarrow> textContent (batch ! i) = Some cut)
              \<and> (\<not> isPdfFile f \<and> \<not> isDocxFile f \<and> \<not> isXlsxFile f \<and> isLikelyTextFile f
                     \<and> fileToText d f = Inr src
                   \<longrightarrow> textContent (batch ! i) = Some cut)"
      unfolding Q_def Let_def truncateToBudget_def by blast
  qed
  from inv a b c fs g show ?thesis by blast
qed

text \<open>
  C1 as stated fails: one PDF whose text has 80001 characters is cut to 80000 characters and
  the marker is appended on top, so the batch carries 80015 characters of extracted text.
\<close>

theorem onFileChange_budget_counterexample:
  "\<not> sum_list (map textLength (fst (onFileChange
        \<lparr>fileToDataUrl = (\<lambda>f. Inr ''data:''), fileToText = (\<lambda>f. Inr ''''),
         pdfToText = (\<lambda>f. Inr (replicate 80001 CHR ''a'')), docxToText = (\<lambda>f. Inr ''''),
         xlsxToText = (\<lambda>f. Inr '''')\<rparr>
        [\<lparr>file_name = ''a.pdf'', file_type = ''application/pdf'', file_size = 80001\<rparr>] ([], None))))
      \<le> MAX_TOTAL_TEXT_CHARS"
  by (simp add: onFileChange_batch extractOne_def isImageFile_def startsWith_def isPdfFile_def
      textBranch_def truncateToBudget_def MAX_TOTAL_TEXT_CHARS_def MAX_FILES_PER_MESSAGE_def
      MAX_FILE_SIZE_MB_def textLength_def bare_def truncationMarker_def)

text \<open>
  The theorem on the batch of the four example files: the PDF above 10 MB is left out, the note
  keeps its 4 characters, the long PDF keeps the 79996 characters that were left of the budget
  and the marker, and the PDF after it receives no text.
\<close>

lemma batch_lower: "toLowerCase ''n.txt'' = ''n.txt''" "toLowerCase ''text/plain'' = ''text/plain''"
  by (simp_all add: toLowerCase_def lowerChar_def)

lemma batch_kinds_image:
  "\<not> isImageFile noteFile" "\<not> isImageFile hugePdf" "\<not> isImageFile longPdf" "\<not> isImageFile laterPdf"
  by (simp_all add: isImageFile_def startsWith_def noteFile_def hugePdf_def longPdf_def laterPdf_def)

lemma batch_kinds_pdf: "isPdfFile longPdf" "isPdfFile laterPdf"
  by (simp_all add: isPdfFile_def longPdf_def laterPdf_def)

lemma batch_kinds_note:
  "\<not> isPdfFile noteFile" "\<not> isDocxFile noteFile" "\<not> isXlsxFile noteFile" "isLikelyTextFile noteFile"
  by (simp_all add: isPdfFile_def isDocxFile_def isXlsxFile_def isLikelyTextFile_def noteFile_def batch_lower
      endsWith_rev startsWith_def Let_def)

lemmas batch_kinds = batch_kinds_image batch_kinds_pdf batch_kinds_note

lemma batch_decoded:
  "fileToText batchDecoders noteFile = Inr ''note''"
  "pdfToText batchDecoders longPdf = Inr (replicate 80001 CHR ''a'')"
  by (simp_all add: batchDecoders_def longPdf_def)

lemma batch_extracted:
  "extractLoop batchDecoders [noteFile, hugePdf, longPdf, laterPdf] [] 0
    = ([\<lparr>att_file = noteFile, dataUrl = None, textContent = Some ''note'', extractionError = None\<rparr>,
        \<lparr>att_file = longPdf, dataUrl = None,
          textContent = Some (replicate 79996 CHR ''a'' @ truncationMarker), extractionError = None\<rparr>,
        \<lparr>att_file = laterPdf, dataUrl = None, textContent = None, extractionError = None\<rparr>], 80015)"
proof -
  have sizes: "file_size noteFile = 4" "file_size hugePdf = 11534336" "file_size longPdf = 80001"
    "file_size laterPdf = 5"
    by (simp_all add: noteFile_def hugePdf_def longPdf_def laterPdf_def)
  have 1: "extractOne batchDecoders noteFile 0
      = (\<lparr>att_file = noteFile, dataUrl = None, textContent = Some ''note'', extractionError = None\<rparr>, 4)"
    by (simp add: extractOne_def batch_kinds batch_decoded textBranch_def truncateToBudget_def
        MAX_TOTAL_TEXT_CHARS_def bare_def)
  have 2: "extractOne batchDecoders longPdf 4
      = (\<lparr>att_file = longPdf, dataUrl = None,
          textContent = Some (replicate 79996 CHR ''a'' @ truncationMarker), extractionError = None\<rparr>, 80015)"
    by (simp add: extractOne_def batch_kinds batch_decoded textBranch_def truncateToBudget_def
        MAX_TOTAL_TEXT_CHARS_def bare_def truncationMarker_length)
  have 3: "extractOne batchDecoders laterPdf 80015
      = (\<lparr>att_file = laterPdf, dataUrl = None, textContent = None, extractionError = None\<rparr>, 80015)"
    by (simp add: extractOne_def batch_kinds MAX_TOTAL_TEXT_CHARS_def bare_def)
  show ?thesis
    by (simp add: 1 2 3 sizes batch_kinds MAX_FILES_PER_MESSAGE_def MAX_FILE_SIZE_MB_def)
qed

theorem onFileChange_budget_witness:
  "extractLoop batchDecoders [noteFile, hugePdf, longPdf, laterPdf] [] 0
    = ([\<lparr>att_file = noteFile, dataUrl = None, textContent = Some ''note'', extractionError = None\<rparr>,
        \<lparr>att_file = longPdf, dataUrl = None,
          textContent = Some (replicate 79996 CHR ''a'' @ truncationMarker), extractionError = None\<rparr>,
        \<lparr>att_file = laterPdf, dataUrl = None, textContent = None, extractionError = None\<rparr>], 80015)
   \<and> fst (onFileChange batchDecoders [noteFile, hugePdf, longPdf, laterPdf] ([], None))
    = [\<lparr>att_file = noteFile, dataUrl = None, textContent = Some ''note'', extractionError = None\<rparr>,
        \<lparr>att_file = longPdf, dataUrl = None,
          textContent = Some (replicate 79996 CHR ''a'' @ truncationMarker), extractionError = None\<rparr>,
        \<lparr>att_file = laterPdf, dataUrl = None, textContent = None, extractionError = None\<rparr>]
   \<and> take MAX_FILES_PER_MESSAGE
           (filter (\<lambda>f. \<not> file_size f >
                (if isImageFile f then MAX_IMAGE_SIZE_MB * 1024 * 1024 else MAX_FILE_SIZE_MB * 1024 * 1024))
              [noteFile, hugePdf, longPdf, laterPdf])
    = [noteFile, longPdf, laterPdf]
   \<and> (80015::nat) \<le> MAX_TOTAL_TEXT_CHARS + 15
   \<and> textContent
       ([\<lparr>att_file = noteFile, dataUrl = None, textContent = Some ''note'', extractionError = None\<rparr>,
         \<lparr>att_file = longPdf, dataUrl = None,
           textContent = Some (replicate 79996 CHR ''a'' @ truncationMarker), extractionError = None\<rparr>,
         \<lparr>att_file = laterPdf, dataUrl = None, textContent = None, extractionError = None\<rparr>] ! 1)
     = Some (take (MAX_TOTAL_TEXT_CHARS - 4) (replicate 80001 CHR ''a'') @ truncationMarker)
   \<and> textContent
       ([\<lparr>att_file = noteFile, dataUrl = None, textContent = Some ''note'', extractionError = None\<rparr>,
         \<lparr>att_file = longPdf, dataUrl = None,
           textContent = Some (replicate 79996 CHR ''a'' @ truncationMarker), extractionError = None\<rparr>,
         \<lparr>att_file = laterPdf, dataUrl = None, textContent = None, extractionError = None\<rparr>] ! 2)
     = None"
proof -
  note t = onFileChange_budget[OF batch_extracted, of None]
  note a = t[THEN conjunct1]
  note b = t[THEN conjunct2, THEN conjunct1, symmetric]
  note c = t[THEN conjunct2, THEN conjunct2, THEN conjunct2, THEN conjunct1]
  note p = t[THEN conjunct2, THEN conjunct2, THEN conjunct2, THEN conjunct2, THEN conjunct1,
             rule_format, of 1 "replicate 80001 CHR ''a''"]
  note q = t[THEN conjunct2, THEN conjunct2, THEN conjunct2, THEN conjunct2, THEN conjunct2, THEN conjunct2,
             rule_format, of 2]
  have b': "take MAX_FILES_PER_MESSAGE
           (filter (\<lambda>f. \<not> file_size f >
                (if isImageFile f then MAX_IMAGE_SIZE_MB * 1024 * 1024 else MAX_FILE_SIZE_MB * 1024 * 1024))
              [noteFile, hugePdf, longPdf, laterPdf])
    = [noteFile, longPdf, laterPdf]"
    using b by (simp only: list.map attachment.simps)
  have p': "textContent
       ([\<lparr>att_file = noteFile, dataUrl = None, textContent = Some ''note'', extractionError = None\<rparr>,
         \<lparr>att_file = longPdf, dataUrl = None,
           textContent = Some (replicate 79996 CHR ''a'' @ truncationMarker), extractionError = None\<rparr>,
         \<lparr>att_file = laterPdf, dataUrl = None, textContent = None, extractionError = None\<rparr>] ! 1)
     = Some (take (MAX_TOTAL_TEXT_CHARS - 4) (replicate 80001 CHR ''a'') @ truncationMarker)"
    using p by (simp add: Let_def textLength_def batch_kinds batch_decoded MAX_TOTAL_TEXT_CHARS_def)
  have q': "textContent
       ([\<lparr>att_file = noteFile, dataUrl = None, textContent = Some ''note'', extractionError = None\<rparr>,
         \<lparr>att_file = longPdf, dataUrl = None,
           textContent = Some (replicate 79996 CHR ''a'' @ truncationMarker), extractionError = None\<rparr>,
         \<lparr>att_file = laterPdf, dataUrl = None, textContent = None, extractionError = None\<rparr>] ! 2)
     = None"
    using q by (simp add: textLength_def MAX_TOTAL_TEXT_CHARS_def truncationMarker_length)
  from batch_extracted a b' c p' q' show ?thesis by (intro conjI)
qed

subsection \<open>The system messages of a request\<close>

lemma includes_str_mid: "includes_str (a @ p @ b) p"
  by (simp add: includes_str_sublist)

lemma includes_str_app_right: "includes_str s p \<Longrightarrow> includes_str (s @ b) p"
  by (auto simp: includes_str_sublist sublist_def) (metis append.assoc)

lemma includes_str_app_left: "includes_str s p \<Longrightarrow> includes_str (a @ s) p"
  by (auto simp: includes_str_sublist sublist_def) (metis append.assoc)

lemma buildMessageText_files:
  assumes "fts \<noteq> []"
  shows "includes_str (buildMessageText ut fts others) ''Attached files:''"
proof -
  define blocks where "blocks = join (nl @ nl) (map fileBlock fts)"
  define text1 where "text1 = (if ut \<noteq> [] then ut @ nl @ nl @ ''Attached files:'' @ nl @ nl @ blocks
                        else ''Attached files:'' @ nl @ nl @ blocks)"
  have t1: "includes_str text1 ''Attached files:''"
  proof (cases "ut = []")
    case True
    then show ?thesis
      using includes_str_mid[of "[]" "''Attached files:''" "nl @ nl @ blocks"] by (simp add: text1_def)
  next
    case False
    then show ?thesis
      using includes_str_mid[of "ut @ nl @ nl" "''Attached files:''" "nl @ nl @ blocks"] by (simp add: text1_def)
  qed
  have ne: "text1 \<noteq> []" by (simp add: text1_def)
  have "buildMessageText ut fts others = text1
      \<or> (\<exists>b. buildMessageText ut fts others = text1 @ b)"
    using assms ne
    by (auto simp: buildMessageText_def Let_def text1_def blocks_def split: option.splits)
  then show ?thesis using t1 includes_str_app_right by auto
qed

lemma buildMessageText_others:
  assumes "names \<noteq> []"
  shows "includes_str (buildMessageText ut fts (Some names)) ''content not extracted''"
proof -
  have "\<exists>a b. buildMessageText ut fts (Some names) = a @ ''content not extracted'' @ b"
  proof -
    define tail where "tail = '': '' @ join '', '' names @ '')''"
    have e: "''(Also attached; content not extracted: '' @ join '', '' names @ '')''
         = ''(Also attached; '' @ ''content not extracted'' @ tail"
      by (simp add: tail_def)
    have "\<exists>a. buildMessageText ut fts (Some names)
        = a @ ''(Also attached; content not extracted: '' @ join '', '' names @ '')''"
      using assms by (auto simp: buildMessageText_def Let_def)
    then obtain a where "buildMessageText ut fts (Some names)
        = a @ ''(Also attached; content not extracted: '' @ join '', '' names @ '')''" by blast
    then have "buildMessageText ut fts (Some names) = (a @ ''(Also attached; '') @ ''content not extracted'' @ tail"
      using e by simp
    then show ?thesis by blast
  qed
  then show ?thesis using includes_str_mid by metis
qed

lemma userApiMessage_role: "api_role (userApiMessage t urls) = ''user''"
  by (simp add: userApiMessage_def Let_def)

lemma userApiMessage_textOf: "textOf (api_content (userApiMessage t urls)) = Some t"
  by (simp add: userApiMessage_def Let_def textOf_def)

lemma userApiMessage_hasImagePart: "hasImagePart (userApiMessage t urls) \<longleftrightarrow> urls \<noteq> []"
  by (cases urls) (simp_all add: userApiMessage_def Let_def hasImagePart_def)

lemma userTextIncludes_user: "userTextIncludes p (userApiMessage t urls) = includes_str t p"
  by (simp add: userTextIncludes_def userApiMessage_role userApiMessage_textOf)

lemma toApiMessage_role: "api_role (toApiMessage m) \<noteq> ''system''"
  by (simp add: toApiMessage_def userApiMessage_role)

lemma conversationMessages_roles:
  "m \<in> set (conversationMessages msgs ut imgs fts others regen) \<Longrightarrow> api_role m \<noteq> ''system''"
  by (auto simp: conversationMessages_def Let_def toApiMessage_role userApiMessage_role split: if_splits)

lemma system_not_user:
  "userTextIncludes p systemFiles = False" "userTextIncludes p systemUnsupported = False"
  "hasImagePart systemFiles = False" "hasImagePart systemUnsupported = False"
  by (simp_all add: userTextIncludes_def hasImagePart_def systemFiles_def systemUnsupported_def)

lemma system_distinct:
  "systemFiles \<noteq> systemUnsupported" "systemFiles \<noteq> systemImages" "systemUnsupported \<noteq> systemImages"
  by (simp_all add: systemFiles_def systemUnsupported_def systemImages_def)

lemma system_roles:
  "api_role systemFiles = ''system''" "api_role systemUnsupported = ''system''"
  "api_role systemImages = ''system''"
  by (simp_all add: systemFiles_def systemUnsupported_def systemImages_def)

lemma buildOpenAIMessages_shape:
  "buildOpenAIMessages msgs ut imgs fts others regen =
     (if list_ex hasImagePart (conversationMessages msgs ut imgs fts others regen) then [systemImages] else [])
     @ (if \<not> list_ex (userTextIncludes ''Attached files:'') (conversationMessages msgs ut imgs fts others regen)
           \<and> list_ex (userTextIncludes ''content not extracted'') (conversationMessages msgs ut imgs fts others regen)
        then [systemUnsupported] else [])
     @ (if list_ex (userTextIncludes ''Attached files:'') (conversationMessages msgs ut imgs fts others regen)
        then [systemFiles] else [])
     @ conversationMessages msgs ut imgs fts others regen"
  by (simp add: buildOpenAIMessages_def Let_def system_not_user)

lemma stored_in_conversation:
  "m \<in> set (if regen then sliceButLast msgs 1 else msgs) \<Longrightarrow>
   toApiMessage m \<in> set (conversationMessages msgs ut imgs fts others regen)"
  by (auto simp: conversationMessages_def Let_def)

lemma new_in_conversation:
  "userApiMessage (buildMessageText ut fts (Some others)) imgs
     \<in> set (conversationMessages msgs ut imgs fts others False)"
  by (simp add: conversationMessages_def Let_def)

lemma toApiMessage_user:
  "m_role m = user \<Longrightarrow> toApiMessage m =
     userApiMessage
       (buildMessageText (m_content m) (case m_fileTexts m of None \<Rightarrow> [] | Some fts \<Rightarrow> fts) (m_otherFileNames m))
       (case m_imageDataUrls m of None \<Rightarrow> [] | Some urls \<Rightarrow> urls)"
  by (simp add: toApiMessage_def)

text \<open>
  C2 (as amended). Every request is a prefix of system messages followed by the conversation. The
  prefix holds each of the three instructions at most once and nothing else, and no message of the
  conversation has the system role. The file-content instruction is there exactly when the text of
  a user message of the request contains \<open>Attached files:\<close>, so whenever a user turn carries
  extracted file text; the image instruction exactly when a user turn carries an image. The
  instruction about unextracted files is there exactly when a user text contains
  \<open>content not extracted\<close> and none contains \<open>Attached files:\<close>: a conversation with
  unextracted-file placeholders gets it only when the file-content instruction is not injected.
\<close>

theorem buildOpenAIMessages_system_messages:
  assumes hist: "hist = conversationMessages msgs ut imgs fts others regen"
    and stored: "stored = (if regen then sliceButLast msgs 1 else msgs)"
  shows "\<exists>pre. buildOpenAIMessages msgs ut imgs fts others regen = pre @ hist
      \<and> distinct pre \<and> set pre \<subseteq> {systemFiles, systemUnsupported, systemImages}
      \<and> (\<forall>m\<in>set hist. api_role m \<noteq> ''system'')
      \<and> (systemFiles \<in> set pre \<longleftrightarrow> list_ex (userTextIncludes ''Attached files:'') hist)
      \<and> (systemUnsupported \<in> set pre \<longleftrightarrow>
            \<not> list_ex (userTextIncludes ''Attached files:'') hist
            \<and> list_ex (userTextIncludes ''content not extracted'') hist)
      \<and> (systemImages \<in> set pre \<longleftrightarrow> list_ex hasImagePart hist)
      \<and> (((\<exists>m\<in>set stored. m_role m = user \<and> (\<exists>f. m_fileTexts m = Some f \<and> f \<noteq> []))
             \<or> (\<not> regen \<and> fts \<noteq> []))
           \<longrightarrow> systemFiles \<in> set pre \<and> systemUnsupported \<notin> set pre)
      \<and> (((\<exists>m\<in>set stored. m_role m = user \<and> (\<exists>n. m_otherFileNames m = Some n \<and> n \<noteq> []))
             \<or> (\<not> regen \<and> others \<noteq> []))
           \<longrightarrow> systemFiles \<in> set pre \<or> systemUnsupported \<in> set pre)
      \<and> (((\<exists>m\<in>set stored. m_role m = user \<and> (\<exists>u. m_imageDataUrls m = Some u \<and> u \<noteq> []))
             \<or> (\<not> regen \<and> imgs \<noteq> []))
           \<longrightarrow> systemImages \<in> set pre)"
proof -
  define F where "F = list_ex (userTextIncludes ''Attached files:'') hist"
  define U where "U = list_ex (userTextIncludes ''content not extracted'') hist"
  define I where "I = list_ex hasImagePart hist"
  define pre where "pre = (if I then [systemImages] else [])
     @ (if \<not> F \<and> U then [systemUnsupported] else []) @ (if F then [systemFiles] else [])"
  have shape: "buildOpenAIMessages msgs ut imgs fts others regen = pre @ hist"
    unfolding pre_def F_def U_def I_def hist by (simp add: buildOpenAIMessages_shape)
  have dist: "distinct pre"
    using system_distinct by (auto simp: pre_def)
  have sub: "set pre \<subseteq> {systemFiles, systemUnsupported, systemImages}"
    by (auto simp: pre_def)
  have roles: "\<forall>m\<in>set hist. api_role m \<noteq> ''system''"
    using conversationMessages_roles hist by blast
  have mF: "systemFiles \<in> set pre \<longleftrightarrow> F"
    using system_distinct by (auto simp: pre_def)
  have mU: "systemUnsupported \<in> set pre \<longleftrightarrow> \<not> F \<and> U"
    using system_distinct by (auto simp: pre_def)
  have mI: "systemImages \<in> set pre \<longleftrightarrow> I"
    using system_distinct by (auto simp: pre_def)
  have inF: "F" if "(\<exists>m\<in>set stored. m_role m = user \<and> (\<exists>f. m_fileTexts m = Some f \<and> f \<noteq> []))
             \<or> (\<not> regen \<and> fts \<noteq> [])"
    using that
  proof
    assume "\<exists>m\<in>set stored. m_role m = user \<and> (\<exists>f. m_fileTexts m = Some f \<and> f \<noteq> [])"
    then obtain m f where m: "m \<in> set stored" "m_role m = user" "m_fileTexts m = Some f" "f \<noteq> []"
      by blast
    have "toApiMessage m \<in> set hist" using m(1) stored hist stored_in_conversation by simp
    moreover have "userTextIncludes ''Attached files:'' (toApiMessage m)"
      using m by (simp add: toApiMessage_user userTextIncludes_user buildMessageText_files)
    ultimately show F unfolding F_def list_ex_iff by blast
  next
    assume a: "\<not> regen \<and> fts \<noteq> []"
    then have "userApiMessage (buildMessageText ut fts (Some others)) imgs \<in> set hist"
      using new_in_conversation[of ut fts others imgs msgs] hist by simp
    moreover have "userTextIncludes ''Attached files:'' (userApiMessage (buildMessageText ut fts (Some others)) imgs)"
      using a by (simp add: userTextIncludes_user buildMessageText_files)
    ultimately show F unfolding F_def list_ex_iff by blast
  qed
  have inU: "U" if "(\<exists>m\<in>set stored. m_role m = user \<and> (\<exists>n. m_otherFileNames m = Some n \<and> n \<noteq> []))
             \<or> (\<not> regen \<and> others \<noteq> [])"
    using that
  proof
    assume "\<exists>m\<in>set stored. m_role m = user \<and> (\<exists>n. m_otherFileNames m = Some n \<and> n \<noteq> [])"
    then obtain m n where m: "m \<in> set stored" "m_role m = user" "m_otherFileNames m = Some n" "n \<noteq> []"
      by blast
    have "toApiMessage m \<in> set hist" using m(1) stored hist stored_in_conversation by simp
    moreover have "userTextIncludes ''content not extracted'' (toApiMessage m)"
      using m by (simp add: toApiMessage_user userTextIncludes_user buildMessageText_others)
    ultimately show U unfolding U_def list_ex_iff by blast
  next
    assume a: "\<not> regen \<and> others \<noteq> []"
    then have "userApiMessage (buildMessageText ut fts (Some others)) imgs \<in> set hist"
      using new_in_conversation[of ut fts others imgs msgs] hist by simp
    moreover have "userTextIncludes ''content not extracted'' (userApiMessage (buildMessageText ut fts (Some others)) imgs)"
      using a by (simp add: userTextIncludes_user buildMessageText_others)
    ultimately show U unfolding U_def list_ex_iff by blast
  qed
  have inI: "I" if "(\<exists>m\<in>set stored. m_role m = user \<and> (\<exists>u. m_imageDataUrls m = Some u \<and> u \<noteq> []))
             \<or> (\<not> regen \<and> imgs \<noteq> [])"
    using that
  proof
    assume "\<exists>m\<in>set stored. m_role m = user \<and> (\<exists>u. m_imageDataUrls m = Some u \<and> u \<noteq> [])"
    then obtain m u where m: "m \<in> set stored" "m_role m = user" "m_imageDataUrls m = Some u" "u \<noteq> []"
      by blast
    have "toApiMessage m \<in> set hist" using m(1) stored hist stored_in_conversation by simp
    moreover have "hasImagePart (toApiMessage m)"
      using m by (simp add: toApiMessage_user userApiMessage_hasImagePart)
    ultimately show I unfolding I_def list_ex_iff by blast
  next
    assume a: "\<not> regen \<and> imgs \<noteq> []"
    then have "userApiMessage (buildMessageText ut fts (Some others)) imgs \<in> set hist"
      using new_in_conversation[of ut fts others imgs msgs] hist by simp
    moreover have "hasImagePart (userApiMessage (buildMessageText ut fts (Some others)) imgs)"
      using a by (simp add: userApiMessage_hasImagePart)
    ultimately show I unfolding I_def list_ex_iff by blast
  qed
  show ?thesis
    apply (rule exI[of _ pre])
    using shape dist sub roles mF mU mI inF inU inI
    unfolding F_def U_def I_def
    by blast
qed

text \<open>
  C2 as stated fails: a turn with one extracted file and one unextracted file has the placeholder
  in its text, and the request holds no instruction about unextracted files.
\<close>

theorem buildOpenAIMessages_system_messages_counterexample:
  "list_ex (userTextIncludes ''content not extracted'')
     (conversationMessages [] ''hi'' [] [\<lparr>ft_name = ''a.txt'', ft_text = ''x''\<rparr>] [''b.bin''] False)
   \<and> systemUnsupported \<notin> set (buildOpenAIMessages [] ''hi'' [] [\<lparr>ft_name = ''a.txt'', ft_text = ''x''\<rparr>] [''b.bin''] False)"
  by code_simp

theorem buildOpenAIMessages_system_messages_witness:
  "\<exists>pre. buildOpenAIMessages [] ''hi'' [''data:x''] [] [] False
            = pre @ conversationMessages [] ''hi'' [''data:x''] [] [] False
      \<and> distinct pre \<and> systemImages \<in> set pre"
proof -
  from buildOpenAIMessages_system_messages[OF refl refl, of "[]" "''hi''" "[''data:x'']" "[]" "[]" False]
  obtain pre where p: "buildOpenAIMessages [] ''hi'' [''data:x''] [] [] False
            = pre @ conversationMessages [] ''hi'' [''data:x''] [] [] False"
      "distinct pre"
      "((\<exists>m\<in>set (if False then sliceButLast [] 1 else []). m_role m = user \<and> (\<exists>u. m_imageDataUrls m = Some u \<and> u \<noteq> []))
             \<or> (\<not> False \<and> [''data:x''] \<noteq> []))
           \<longrightarrow> systemImages \<in> set pre"
    by blast
  from p(3) have "systemImages \<in> set pre" by simp
  with p(1,2) show ?thesis by blast
qed

subsection \<open>Deleting a project on the remote adapter\<close>

text \<open>
  C3. Deleting a project should remove every chat of it from memory and from the store, on both
  adapters, also when the project is not the selected one. On the remote adapter the handler
  deletes the files of the chats it finds in \<open>chats\<close>, which holds the chats of the selected project
  only. Evaluated on the library with two projects, the first one selected: deleting the second
  project succeeds and drops its chat from \<open>allChats\<close>, but the file of that chat stays in the
  library and the next load brings the chat back.
\<close>

theorem handleDeleteProject_remote_keeps_files:
  "error (handleDeleteProject remoteProps True otherProject twoProjectsState) = None
   \<and> projects (handleDeleteProject remoteProps True otherProject twoProjectsState) = [defaultProject]
   \<and> allChats (handleDeleteProject remoteProps True otherProject twoProjectsState) = [defaultChat]
   \<and> list_ex (\<lambda>f. sp_Name f = ''chat2etc-chat-c2.json'' \<and> sp_body f = ChatJson otherChat)
        (sp_files (library (handleDeleteProject remoteProps True otherProject twoProjectsState)))
   \<and> fst (getChatsFromLibrary epochPlatform
        (library (handleDeleteProject remoteProps True otherProject twoProjectsState)))
       = Inr [defaultChat, otherChat]"
  by (simp add: handleDeleteProject_def remoteProps_def twoProjectsState_def initialState_def
      saveProjectsToLibrary_def getFolderServerRelativeUrl_def addFile_def afterProjectDeleted_def
      getChatsFromLibrary_def getMyFileItems_def
      getCurrentUserId_def getFileContent_def twoProjectsLibrary_def emptyLibrary_def
      PROJECTS_FILE_PREFIX_def CHAT_FILE_PREFIX_def FILE_EXT_def startsWith_def endsWith_rev
      numberToString_7 sortBy_def byUpdatedAtDesc_def getTime_def epochPlatform_def
      defaultChat_def otherChat_def defaultProject_def otherProject_def newChatRecord_def Let_def)

subsection \<open>Regenerate\<close>

lemma userApiMessage_explicit:
  "userApiMessage t urls =
     \<lparr>api_role = ''user'',
      api_content = (if urls = [] then Str t else Parts (TextPart t # map ImageUrlPart urls))\<rparr>"
  by (simp add: userApiMessage_def Let_def)

lemma buildMessageText_explicit:
  "buildMessageText c fts others =
     (let names = (case others of None \<Rightarrow> [] | Some x \<Rightarrow> x);
          blocks = join [CHR 0x0A, CHR 0x0A]
                     (map (\<lambda>f. ''--- '' @ ft_name f @ '' ---'' @ [CHR 0x0A] @ ft_text f) fts);
          withFiles = (if fts = [] then c
                       else (if c = [] then [] else c @ [CHR 0x0A, CHR 0x0A])
                            @ ''Attached files:'' @ [CHR 0x0A, CHR 0x0A] @ blocks);
          withNames = (if names = [] then withFiles
                       else (if withFiles = [] then [] else withFiles @ [CHR 0x0A, CHR 0x0A])
                            @ ''(Also attached; content not extracted: '' @ join '', '' names @ '')'')
      in if withNames = [] then ''(No content)'' else withNames)"
proof -
  have fb: "fileBlock = (\<lambda>f. ''--- '' @ ft_name f @ '' ---'' @ [CHR 0x0A] @ ft_text f)"
    by (rule ext) (simp add: fileBlock_def nl_def)
  show ?thesis
    unfolding buildMessageText_def fb nl_def Let_def
    by (cases others) auto
qed

text \<open>
  C4. For a chat whose messages end with a user message \<open>u\<close> followed by an assistant message \<open>a\<close>,
  regenerate (with the API key set and no request running, as for every send) sends a request
  whose conversation is the stored messages without \<open>a\<close>: after the system messages come the
  messages before \<open>u\<close> and then \<open>u\<close>. The final user turn is the stored \<open>u\<close> with its attachments,
  written out: its text is the stored content, then, when \<open>u\<close> has extracted documents, the heading
  \<open>Attached files:\<close> and for each document, in order, the line \<open>--- name ---\<close> and its text, then,
  when \<open>u\<close> has files whose content was not extracted, their names in
  \<open>(Also attached; content not extracted: ...)\<close>, the parts two line feeds apart (\<open>(No content)\<close> when
  all of it is empty); with stored images the content is this text followed by one image part
  for each stored URL, in order, and without images it is the text itself. So the text starts
  with the stored content, and is the stored content when \<open>u\<close> has no attachment. The history loses
  its two most recent messages, and then the new assistant placeholder is appended.
\<close>

theorem sendMessage_regenerate:
  assumes key: "trim (apiKey pr) \<noteq> []" and idle: "\<not> loading st"
    and msgs: "messages st = pre @ [u, a]" and roles: "m_role u = user" "m_role a = assistant"
  shows "\<exists>st' req op sys placeholder.
      sendMessage P pr fr True st = (st', Some (req, op))
    \<and> req_messages req = sys @ map toApiMessage (pre @ [u])
    \<and> (\<forall>m\<in>set sys. api_role m = ''system'')
    \<and> last (req_messages req) =
         userApiMessage (buildMessageText (m_content u) (orEmpty (m_fileTexts u)) (m_otherFileNames u))
           (orEmpty (m_imageDataUrls u))
    \<and> (let c = m_content u;
            fts = (case m_fileTexts u of None \<Rightarrow> [] | Some x \<Rightarrow> x);
            names = (case m_otherFileNames u of None \<Rightarrow> [] | Some x \<Rightarrow> x);
            imgs = (case m_imageDataUrls u of None \<Rightarrow> [] | Some x \<Rightarrow> x);
            blocks = join [CHR 0x0A, CHR 0x0A]
                       (map (\<lambda>f. ''--- '' @ ft_name f @ '' ---'' @ [CHR 0x0A] @ ft_text f) fts);
            withFiles = (if fts = [] then c
                         else (if c = [] then [] else c @ [CHR 0x0A, CHR 0x0A])
                              @ ''Attached files:'' @ [CHR 0x0A, CHR 0x0A] @ blocks);
            withNames = (if names = [] then withFiles
                         else (if withFiles = [] then [] else withFiles @ [CHR 0x0A, CHR 0x0A])
                              @ ''(Also attached; content not extracted: '' @ join '', '' names @ '')'');
            text' = (if withNames = [] then ''(No content)'' else withNames)
        in last (req_messages req) =
             \<lparr>api_role = ''user'',
              api_content = (if imgs = [] then Str text' else Parts (TextPart text' # map ImageUrlPart imgs))\<rparr>
           \<and> (c \<noteq> [] \<longrightarrow> prefix c text'))
    \<and> (m_content u \<noteq> [] \<and> orEmpty (m_fileTexts u) = [] \<and> orEmpty (m_otherFileNames u) = []
         \<and> orEmpty (m_imageDataUrls u) = []
        \<longrightarrow> last (req_messages req) = \<lparr>api_role = ''user'', api_content = Str (m_content u)\<rparr>)
    \<and> messages st' = pre @ [placeholder]
    \<and> m_id placeholder = placeholderId fr \<and> m_role placeholder = assistant \<and> m_content placeholder = []"
proof -
  define sys where "sys =
     (if list_ex hasImagePart (conversationMessages (messages st) (m_content u) (orEmpty (m_imageDataUrls u))
            (orEmpty (m_fileTexts u)) (orEmpty (m_otherFileNames u)) True) then [systemImages] else [])
     @ (if \<not> list_ex (userTextIncludes ''Attached files:'') (conversationMessages (messages st) (m_content u) (orEmpty (m_imageDataUrls u))
            (orEmpty (m_fileTexts u)) (orEmpty (m_otherFileNames u)) True)
           \<and> list_ex (userTextIncludes ''content not extracted'') (conversationMessages (messages st) (m_content u) (orEmpty (m_imageDataUrls u))
            (orEmpty (m_fileTexts u)) (orEmpty (m_otherFileNames u)) True)
        then [systemUnsupported] else [])
     @ (if list_ex (userTextIncludes ''Attached files:'') (conversationMessages (messages st) (m_content u) (orEmpty (m_imageDataUrls u))
            (orEmpty (m_fileTexts u)) (orEmpty (m_otherFileNames u)) True)
        then [systemFiles] else [])"
  define placeholder where "placeholder =
     \<lparr>m_id = placeholderId fr, m_role = assistant, m_content = [], m_timestamp = Date (now fr),
      m_imageDataUrls = None, m_fileTexts = None, m_otherFileNames = None\<rparr>"
  define req where "req = \<lparr>req_key = trim (apiKey pr), req_model = model st,
      req_messages = buildOpenAIMessages (messages st) (m_content u) (orEmpty (m_imageDataUrls u))
            (orEmpty (m_fileTexts u)) (orEmpty (m_otherFileNames u)) True\<rparr>"
  have lu: "find (\<lambda>m. m_role m = user) (rev (messages st)) = Some u"
    using msgs roles by simp
  have len: "length (messages st) \<ge> 2" using msgs by simp
  have conv: "conversationMessages (messages st) ut imgs fts others True = map toApiMessage (pre @ [u])"
    for ut imgs fts others
    using msgs by (simp add: conversationMessages_def sliceButLast_def Let_def)
  have reqm: "req_messages req = sys @ map toApiMessage (pre @ [u])"
    unfolding req_def sys_def by (simp add: buildOpenAIMessages_shape conv)
  have sysr: "\<forall>m\<in>set sys. api_role m = ''system''"
    by (auto simp: sys_def system_roles)
  have lastm: "last (req_messages req) = toApiMessage u"
    unfolding reqm by simp
  have tu: "toApiMessage u =
         userApiMessage (buildMessageText (m_content u) (orEmpty (m_fileTexts u)) (m_otherFileNames u))
           (orEmpty (m_imageDataUrls u))"
    using roles(1) by (simp add: toApiMessage_user orEmpty_def)
  have expl: "(let c = m_content u;
            fts = (case m_fileTexts u of None \<Rightarrow> [] | Some x \<Rightarrow> x);
            names = (case m_otherFileNames u of None \<Rightarrow> [] | Some x \<Rightarrow> x);
            imgs = (case m_imageDataUrls u of None \<Rightarrow> [] | Some x \<Rightarrow> x);
            blocks = join [CHR 0x0A, CHR 0x0A]
                       (map (\<lambda>f. ''--- '' @ ft_name f @ '' ---'' @ [CHR 0x0A] @ ft_text f) fts);
            withFiles = (if fts = [] then c
                         else (if c = [] then [] else c @ [CHR 0x0A, CHR 0x0A])
                              @ ''Attached files:'' @ [CHR 0x0A, CHR 0x0A] @ blocks);
            withNames = (if names = [] then withFiles
                         else (if withFiles = [] then [] else withFiles @ [CHR 0x0A, CHR 0x0A])
                              @ ''(Also attached; content not extracted: '' @ join '', '' names @ '')'');
            text' = (if withNames = [] then ''(No content)'' else withNames)
        in toApiMessage u =
             \<lparr>api_role = ''user'',
              api_content = (if imgs = [] then Str text' else Parts (TextPart text' # map ImageUrlPart imgs))\<rparr>
           \<and> (c \<noteq> [] \<longrightarrow> prefix c text'))"
    unfolding tu orEmpty_def userApiMessage_explicit buildMessageText_explicit Let_def
    by (simp add: prefix_def)
  have plain: "m_content u \<noteq> [] \<and> orEmpty (m_fileTexts u) = [] \<and> orEmpty (m_otherFileNames u) = []
         \<and> orEmpty (m_imageDataUrls u) = []
        \<longrightarrow> toApiMessage u = \<lparr>api_role = ''user'', api_content = Str (m_content u)\<rparr>"
    unfolding tu
    by (auto simp: userApiMessage_def buildMessageText_def Let_def orEmpty_def split: option.splits)
  have run: "sendMessage P pr fr True st =
      (st\<lparr>messages := pre @ [placeholder], error := None, loading := True,
          controllers := controllers st @ [False], abortRef := Some (length (controllers st))\<rparr>,
       Some (req, \<lparr>op_placeholderId = placeholderId fr, op_controller = length (controllers st),
                                op_buffer = [], op_fullContent = []\<rparr>))"
    using key idle lu len
    unfolding sendMessage_def Let_def req_def placeholder_def
    by (simp add: msgs sliceButLast_def)
  show ?thesis
    using run reqm sysr lastm tu plain expl
    by (intro exI[of _ "st\<lparr>messages := pre @ [placeholder], error := None, loading := True,
          controllers := controllers st @ [False], abortRef := Some (length (controllers st))\<rparr>"]
        exI[of _ req] exI[of _ "\<lparr>op_placeholderId = placeholderId fr, op_controller = length (controllers st),
                                op_buffer = [], op_fullContent = []\<rparr>"] exI[of _ sys] exI[of _ placeholder])
       (simp add: placeholder_def)
qed

theorem sendMessage_regenerate_witness:
  "\<exists>st' req op sys placeholder.
      sendMessage epochPlatform localProps someFresh True
        (initialState\<lparr>messages := [earlierQuestion, earlierAnswer, attachedQuestion, lastAnswer]\<rparr>)
        = (st', Some (req, op))
    \<and> req_messages req = sys @
         [\<lparr>api_role = ''user'', api_content = Str ''q''\<rparr>,
          \<lparr>api_role = ''assistant'', api_content = Str ''r''\<rparr>,
          \<lparr>api_role = ''user'',
           api_content = Parts
             [TextPart (''hi'' @ [CHR 0x0A, CHR 0x0A] @ ''Attached files:'' @ [CHR 0x0A, CHR 0x0A]
                        @ ''--- a.txt ---'' @ [CHR 0x0A] @ ''alpha'' @ [CHR 0x0A, CHR 0x0A]
                        @ ''--- b.txt ---'' @ [CHR 0x0A] @ ''beta'' @ [CHR 0x0A, CHR 0x0A]
                        @ ''(Also attached; content not extracted: c.bin, d.bin)''),
              ImageUrlPart ''data:image/png;base64,AA'']\<rparr>]
    \<and> last (req_messages req) =
          \<lparr>api_role = ''user'',
           api_content = Parts
             [TextPart (''hi'' @ [CHR 0x0A, CHR 0x0A] @ ''Attached files:'' @ [CHR 0x0A, CHR 0x0A]
                        @ ''--- a.txt ---'' @ [CHR 0x0A] @ ''alpha'' @ [CHR 0x0A, CHR 0x0A]
                        @ ''--- b.txt ---'' @ [CHR 0x0A] @ ''beta'' @ [CHR 0x0A, CHR 0x0A]
                        @ ''(Also attached; content not extracted: c.bin, d.bin)''),
              ImageUrlPart ''data:image/png;base64,AA'']\<rparr>
    \<and> messages st' = [earlierQuestion, earlierAnswer, placeholder]
    \<and> m_id placeholder = ''0-a'' \<and> m_role placeholder = assistant \<and> m_content placeholder = []"
proof -
  have h: "\<not> loading (initialState\<lparr>messages := [earlierQuestion, earlierAnswer, attachedQuestion, lastAnswer]\<rparr>)"
    "messages (initialState\<lparr>messages := [earlierQuestion, earlierAnswer, attachedQuestion, lastAnswer]\<rparr>)
      = [earlierQuestion, earlierAnswer] @ [attachedQuestion, lastAnswer]"
    "m_role attachedQuestion = user" "m_role lastAnswer = assistant"
    by (simp_all add: initialState_def attachedQuestion_def lastAnswer_def)
  from sendMessage_regenerate[OF trim_key h, of epochPlatform someFresh]
  obtain st' req op sys placeholder where
    run: "sendMessage epochPlatform localProps someFresh True
        (initialState\<lparr>messages := [earlierQuestion, earlierAnswer, attachedQuestion, lastAnswer]\<rparr>)
        = (st', Some (req, op))"
    and reqm: "req_messages req = sys @ map toApiMessage ([earlierQuestion, earlierAnswer] @ [attachedQuestion])"
    and expl: "(let c = m_content attachedQuestion;
            fts = (case m_fileTexts attachedQuestion of None \<Rightarrow> [] | Some x \<Rightarrow> x);
            names = (case m_otherFileNames attachedQuestion of None \<Rightarrow> [] | Some x \<Rightarrow> x);
            imgs = (case m_imageDataUrls attachedQuestion of None \<Rightarrow> [] | Some x \<Rightarrow> x);
            blocks = join [CHR 0x0A, CHR 0x0A]
                       (map (\<lambda>f. ''--- '' @ ft_name f @ '' ---'' @ [CHR 0x0A] @ ft_text f) fts);
            withFiles = (if fts = [] then c
                         else (if c = [] then [] else c @ [CHR 0x0A, CHR 0x0A])
                              @ ''Attached files:'' @ [CHR 0x0A, CHR 0x0A] @ blocks);
            withNames = (if names = [] then withFiles
                         else (if withFiles = [] then [] else withFiles @ [CHR 0x0A, CHR 0x0A])
                              @ ''(Also attached; content not extracted: '' @ join '', '' names @ '')'');
            text' = (if withNames = [] then ''(No content)'' else withNames)
        in last (req_messages req) =
             \<lparr>api_role = ''user'',
              api_content = (if imgs = [] then Str text' else Parts (TextPart text' # map ImageUrlPart imgs))\<rparr>
           \<and> (c \<noteq> [] \<longrightarrow> prefix c text'))"
    and msgs: "messages st' = [earlierQuestion, earlierAnswer] @ [placeholder]"
    and ph: "m_id placeholder = placeholderId someFresh" "m_role placeholder = assistant" "m_content placeholder = []"
    by blast
  have q: "toApiMessage earlierQuestion = \<lparr>api_role = ''user'', api_content = Str ''q''\<rparr>"
    by (simp add: toApiMessage_def earlierQuestion_def userApiMessage_explicit buildMessageText_explicit)
  have r: "toApiMessage earlierAnswer = \<lparr>api_role = ''assistant'', api_content = Str ''r''\<rparr>"
    by (simp add: toApiMessage_def earlierAnswer_def)
  have u: "toApiMessage attachedQuestion =
          \<lparr>api_role = ''user'',
           api_content = Parts
             [TextPart (''hi'' @ [CHR 0x0A, CHR 0x0A] @ ''Attached files:'' @ [CHR 0x0A, CHR 0x0A]
                        @ ''--- a.txt ---'' @ [CHR 0x0A] @ ''alpha'' @ [CHR 0x0A, CHR 0x0A]
                        @ ''--- b.txt ---'' @ [CHR 0x0A] @ ''beta'' @ [CHR 0x0A, CHR 0x0A]
                        @ ''(Also attached; content not extracted: c.bin, d.bin)''),
              ImageUrlPart ''data:image/png;base64,AA'']\<rparr>"
    by (simp add: toApiMessage_def attachedQuestion_def userApiMessage_explicit buildMessageText_explicit)
  have l: "last (req_messages req) =
          \<lparr>api_role = ''user'',
           api_content = Parts
             [TextPart (''hi'' @ [CHR 0x0A, CHR 0x0A] @ ''Attached files:'' @ [CHR 0x0A, CHR 0x0A]
                        @ ''--- a.txt ---'' @ [CHR 0x0A] @ ''alpha'' @ [CHR 0x0A, CHR 0x0A]
                        @ ''--- b.txt ---'' @ [CHR 0x0A] @ ''beta'' @ [CHR 0x0A, CHR 0x0A]
                        @ ''(Also attached; content not extracted: c.bin, d.bin)''),
              ImageUrlPart ''data:image/png;base64,AA'']\<rparr>"
    using expl by (simp add: attachedQuestion_def Let_def)
  show ?thesis
    using run reqm msgs ph q r u l
    by (intro exI[of _ st'] exI[of _ req] exI[of _ op] exI[of _ sys] exI[of _ placeholder])
       (simp add: someFresh_def)
qed

subsection \<open>Cancelling a running request\<close>

text \<open>
  C5 (as amended). While a request is running (\<open>loading\<close>), a new send is refused: no request is
  built and the controller of the running request is left as it is. Starting a new chat aborts the
  controller \<open>abortRef\<close> points to, the one of the running request. Once its controller is aborted,
  the next step of the running call ends it without touching any message, whatever the server
  sent; and an aborted controller stays aborted through every handler and every step of another
  call, so no chunk of the aborted request is applied afterwards.
\<close>

theorem stream_cancellation:
  "(loading st \<longrightarrow>
      snd (sendMessage P pr fr regen st) = None
    \<and> controllers (fst (sendMessage P pr fr regen st)) = controllers st
    \<and> abortRef (fst (sendMessage P pr fr regen st)) = abortRef st)
   \<and> (abortRef st = Some (op_controller op) \<and> op_controller op < length (controllers st) \<longrightarrow>
      isAborted op (newChat P pr fr st))
   \<and> (isAborted op st \<longrightarrow>
      onFetched J f op st = (None, finallyBlock st) \<and> onRead J r op st = (None, finallyBlock st)
    \<and> messages (finallyBlock st) = messages st)
   \<and> (isAborted op st \<longrightarrow>
      isAborted op (newChat P pr fr st) \<and> isAborted op (handleSelectChat c st)
    \<and> isAborted op (fst (sendMessage P pr fr regen st))
    \<and> isAborted op (snd (onFetched J f op2 st)) \<and> isAborted op (snd (onRead J r op2 st)))"
proof -
  have a: "loading st \<longrightarrow>
      snd (sendMessage P pr fr regen st) = None
    \<and> controllers (fst (sendMessage P pr fr regen st)) = controllers st
    \<and> abortRef (fst (sendMessage P pr fr regen st)) = abortRef st"
    using sendMessage_loading by blast
  have b: "abortRef st = Some (op_controller op) \<and> op_controller op < length (controllers st) \<longrightarrow>
      isAborted op (newChat P pr fr st)"
    using abortCurrent_aborts[of st op] isAborted_cong[OF newChat_controllers, of op P pr fr st] by blast
  have c: "isAborted op st \<longrightarrow>
      onFetched J f op st = (None, finallyBlock st) \<and> onRead J r op st = (None, finallyBlock st)
    \<and> messages (finallyBlock st) = messages st"
    by (simp add: onFetched_def onRead_def)
  have d: "isAborted op st \<longrightarrow>
      isAborted op (newChat P pr fr st) \<and> isAborted op (handleSelectChat c st)
    \<and> isAborted op (fst (sendMessage P pr fr regen st))
    \<and> isAborted op (snd (onFetched J f op2 st)) \<and> isAborted op (snd (onRead J r op2 st))"
    using abortCurrent_keeps[of op st] isAborted_cong[OF newChat_controllers, of op P pr fr st]
      sendMessage_keeps[of op st P pr fr regen]
      isAborted_cong[OF onFetched_controllers, of op J f op2 st]
      isAborted_cong[OF onRead_controllers, of op J r op2 st]
      isAborted_cong[OF handleSelectChat_controllers, of op c st]
    by blast
  from a b c d show ?thesis by blast
qed

text \<open>
  C5 as stated fails: with a request running, a new send returns at the \<open>loading\<close> guard and
  selecting another chat only sets the current chat; neither aborts the running request, and after
  the selection a chunk of that request is still written into its message.
\<close>

theorem stream_cancellation_counterexample:
  "loading streamingState
   \<and> snd (sendMessage epochPlatform localProps someFresh False (streamingState\<lparr>input := ''more''\<rparr>)) = None
   \<and> \<not> isAborted streamingOperation
         (fst (sendMessage epochPlatform localProps someFresh False (streamingState\<lparr>input := ''more''\<rparr>)))
   \<and> \<not> isAborted streamingOperation
         (handleSelectChat (newChatRecord epochPlatform ''9-c'' ''9-p'' ''New chat'' 0) streamingState)
   \<and> m_content (last (messages (snd (onRead \<lparr>errorMessageOf = (\<lambda>b. None), deltaOf = (\<lambda>d. Some (Some ''Hello''))\<rparr>
         (ReadChunk (''data: x'' @ nl)) streamingOperation
         (handleSelectChat (newChatRecord epochPlatform ''9-c'' ''9-p'' ''New chat'' 0) streamingState)))))
       = ''Hello''"
proof -
  have l: "loading streamingState" by (simp add: streaming_values initialState_def)
  have k: "trim (apiKey localProps) \<noteq> []" by (rule trim_key)
  have l2: "loading (streamingState\<lparr>input := ''more''\<rparr>)" using l by simp
  have s: "sendMessage epochPlatform localProps someFresh False (streamingState\<lparr>input := ''more''\<rparr>)
      = (streamingState\<lparr>input := ''more''\<rparr>, None)"
    using sendMessage_loading_plain[OF l2 k] .
  have na: "\<not> isAborted streamingOperation streamingState"
    by (simp add: streaming_values isAborted_def initialState_def)
  have 1: "\<not> isAborted streamingOperation
         (fst (sendMessage epochPlatform localProps someFresh False (streamingState\<lparr>input := ''more''\<rparr>)))"
    using na by (simp add: s isAborted_def)
  have 2: "\<not> isAborted streamingOperation
         (handleSelectChat (newChatRecord epochPlatform ''9-c'' ''9-p'' ''New chat'' 0) streamingState)"
    using na by (simp add: isAborted_def)
  have 3: "m_content (last (messages (snd (onRead \<lparr>errorMessageOf = (\<lambda>b. None), deltaOf = (\<lambda>d. Some (Some ''Hello''))\<rparr>
         (ReadChunk (''data: x'' @ nl)) streamingOperation
         (handleSelectChat (newChatRecord epochPlatform ''9-c'' ''9-p'' ''New chat'' 0) streamingState)))))
       = ''Hello''"
    using 2
    by (simp add: onRead_def Let_def streaming_values initialState_def handleSelectChat_def
        setCurrentChatId_def nl_def processLine_def startsWith_def setContent_def)
  from l s 1 2 3 show ?thesis by simp
qed

theorem stream_cancellation_witness:
  "loading streamingState
   \<and> snd (sendMessage epochPlatform localProps someFresh False streamingState) = None
   \<and> abortRef streamingState = Some (op_controller streamingOperation)
   \<and> isAborted streamingOperation (newChat epochPlatform localProps someFresh streamingState)
   \<and> onRead \<lparr>errorMessageOf = (\<lambda>b. None), deltaOf = (\<lambda>d. Some (Some ''Hello''))\<rparr>
         (ReadChunk (''data: x'' @ nl)) streamingOperation
         (newChat epochPlatform localProps someFresh streamingState)
       = (None, finallyBlock (newChat epochPlatform localProps someFresh streamingState))
   \<and> messages (finallyBlock (newChat epochPlatform localProps someFresh streamingState))
       = messages (newChat epochPlatform localProps someFresh streamingState)"
proof -
  have l: "loading streamingState" by (simp add: streaming_values initialState_def)
  have r: "abortRef streamingState = Some (op_controller streamingOperation)
      \<and> op_controller streamingOperation < length (controllers streamingState)"
    by (simp add: streaming_values initialState_def)
  note t1 = stream_cancellation[of streamingState epochPlatform localProps someFresh False streamingOperation]
  from t1 l r have ab: "isAborted streamingOperation (newChat epochPlatform localProps someFresh streamingState)"
    and ns: "snd (sendMessage epochPlatform localProps someFresh False streamingState) = None"
    by blast+
  note t2 = stream_cancellation[of "newChat epochPlatform localProps someFresh streamingState"
      epochPlatform localProps someFresh False streamingOperation
      "\<lparr>errorMessageOf = (\<lambda>b. None), deltaOf = (\<lambda>d. Some (Some ''Hello''))\<rparr>" _
      "ReadChunk (''data: x'' @ nl)"]
  from t2 ab have "onRead \<lparr>errorMessageOf = (\<lambda>b. None), deltaOf = (\<lambda>d. Some (Some ''Hello''))\<rparr>
         (ReadChunk (''data: x'' @ nl)) streamingOperation
         (newChat epochPlatform localProps someFresh streamingState)
       = (None, finallyBlock (newChat epochPlatform localProps someFresh streamingState))
    \<and> messages (finallyBlock (newChat epochPlatform localProps someFresh streamingState))
       = messages (newChat epochPlatform localProps someFresh streamingState)"
    by blast
  with l r ab ns show ?thesis by blast
qed

subsection \<open>Failures of the remote adapter\<close>




text \<open>
  C7. The model-suggestion function answers \<open>simple\<close> for the question about the capital of
  France without attachments, \<open>complex\<close> for the quicksort request without attachments, and
  \<open>complex\<close> for every text as soon as there is an attachment.
\<close>

theorem suggestModelFromContent_examples:
  "suggestModelFromContent ''What is the capital of France?'' False = simple
   \<and> suggestModelFromContent
        ''Write a function that implements quicksort and explain the algorithm step by step'' False
        = complex
   \<and> (\<forall>t. suggestModelFromContent t True = complex)"
proof -
  have a: "suggestModelFromContent ''What is the capital of France?'' False = simple"
    by code_simp
  have b: "suggestModelFromContent
        ''Write a function that implements quicksort and explain the algorithm step by step'' False
        = complex"
    by code_simp
  have c: "\<forall>t. suggestModelFromContent t True = complex"
    by (simp add: suggestModelFromContent_def Let_def)
  from a b c show ?thesis by blast
qed

subsection \<open>Round trip through the adapters\<close>

text \<open>
  C8. Persisting a chat and reading it back through the same adapter gives the same messages.
  The conversions: for every in-memory message (its timestamp a valid date, as every date the
  program makes is), \<open>storedToMessage (messageToStored m) = m\<close>, so the id, role, content,
  timestamp, image URLs, file texts and other file names are those of \<open>m\<close>. The local adapter
  reads back the list of chats it saved, messages included, once the storage has taken the write.
  The remote adapter, with the server answering ok and the library as the adapter writes it, reads
  back the chat it saved (a chat has an id and a project id): the loaded list holds that chat,
  messages included, and no other chat of that id.
\<close>

theorem persistence_roundtrip:
  "(validTimestamp P m \<longrightarrow>
      (\<exists>s. messageToStored P m = Inr s \<and> storedToMessage P s = m))
   \<and> (\<not> quotaExceeded ls \<longrightarrow> getAllChats (saveAllChats cs ls) = cs)
   \<and> (remoteReady folderUrl w \<and> c_id chat \<noteq> [] \<and> c_projectId chat \<noteq> [] \<longrightarrow>
        (\<exists>w' w'' cs'. saveChatToLibrary config chat w = (Inr (), w')
           \<and> getChatsFromLibrary P w' = (Inr cs', w'')
           \<and> chat \<in> set cs' \<and> (\<forall>c\<in>set cs'. c_id c = c_id chat \<longrightarrow> c = chat)))"
proof -
  have a: "validTimestamp P m \<longrightarrow> (\<exists>s. messageToStored P m = Inr s \<and> storedToMessage P s = m)"
    using conversions_roundtrip by blast
  have c: "\<not> quotaExceeded ls \<longrightarrow> getAllChats (saveAllChats cs ls) = cs"
    using local_roundtrip by blast
  have d: "remoteReady folderUrl w \<and> c_id chat \<noteq> [] \<and> c_projectId chat \<noteq> [] \<longrightarrow>
        (\<exists>w' w'' cs'. saveChatToLibrary config chat w = (Inr (), w')
           \<and> getChatsFromLibrary P w' = (Inr cs', w'')
           \<and> chat \<in> set cs' \<and> (\<forall>c\<in>set cs'. c_id c = c_id chat \<longrightarrow> c = chat))"
    using remote_roundtrip[of folderUrl w chat config P] by blast
  from a c d show ?thesis by blast
qed

theorem persistence_roundtrip_witness:
  "(\<exists>s. messageToStored
            \<lparr>newDate = (\<lambda>s. if s = ''1970-01-01T00:00:00.000Z'' then Date 0 else InvalidDate),
             isoString = (\<lambda>t. if t = 0 then ''1970-01-01T00:00:00.000Z'' else [])\<rparr>
            \<lparr>m_id = ''1'', m_role = user, m_content = ''hi'', m_timestamp = Date 0,
             m_imageDataUrls = None, m_fileTexts = None, m_otherFileNames = None\<rparr> = Inr s
        \<and> storedToMessage
            \<lparr>newDate = (\<lambda>s. if s = ''1970-01-01T00:00:00.000Z'' then Date 0 else InvalidDate),
             isoString = (\<lambda>t. if t = 0 then ''1970-01-01T00:00:00.000Z'' else [])\<rparr> s
          = \<lparr>m_id = ''1'', m_role = user, m_content = ''hi'', m_timestamp = Date 0,
             m_imageDataUrls = None, m_fileTexts = None, m_otherFileNames = None\<rparr>)
   \<and> getAllChats (saveAllChats
          [\<lparr>c_id = ''c1'', c_projectId = ''p1'', c_title = ''New chat'', c_messages = [],
            c_createdAt = ''1970-01-01T00:00:00.000Z'', c_updatedAt = ''1970-01-01T00:00:00.000Z''\<rparr>]
          \<lparr>ls_projects = NoItem, ls_chats = NoItem, ls_currentProject = None, ls_currentChat = None,
           quotaExceeded = False\<rparr>)
      = [\<lparr>c_id = ''c1'', c_projectId = ''p1'', c_title = ''New chat'', c_messages = [],
            c_createdAt = ''1970-01-01T00:00:00.000Z'', c_updatedAt = ''1970-01-01T00:00:00.000Z''\<rparr>]
   \<and> (\<exists>w' w'' cs'.
         saveChatToLibrary \<lparr>webAbsoluteUrl = ''https://host/sites/team'', libraryTitle = ''Chats''\<rparr>
           \<lparr>c_id = ''c1'', c_projectId = ''p1'', c_title = ''New chat'', c_messages = [],
            c_createdAt = ''1970-01-01T00:00:00.000Z'', c_updatedAt = ''1970-01-01T00:00:00.000Z''\<rparr>
           \<lparr>sp_files = [], sp_userId = Some 7, sp_folder = Some ''/sites/team/Chats'', sp_listOk = True,
            sp_readOk = True, sp_addOk = True, sp_deleteOk = True, sp_errorText = [],
            cachedUserId = None\<rparr> = (Inr (), w')
       \<and> getChatsFromLibrary
            \<lparr>newDate = (\<lambda>s. if s = ''1970-01-01T00:00:00.000Z'' then Date 0 else InvalidDate),
             isoString = (\<lambda>t. if t = 0 then ''1970-01-01T00:00:00.000Z'' else [])\<rparr> w'
           = (Inr cs', w'')
       \<and> \<lparr>c_id = ''c1'', c_projectId = ''p1'', c_title = ''New chat'', c_messages = [],
            c_createdAt = ''1970-01-01T00:00:00.000Z'', c_updatedAt = ''1970-01-01T00:00:00.000Z''\<rparr>
           \<in> set cs')"
proof -
  have v: "validTimestamp
            \<lparr>newDate = (\<lambda>s. if s = ''1970-01-01T00:00:00.000Z'' then Date 0 else InvalidDate),
             isoString = (\<lambda>t. if t = 0 then ''1970-01-01T00:00:00.000Z'' else [])\<rparr>
            \<lparr>m_id = ''1'', m_role = user, m_content = ''hi'', m_timestamp = Date 0,
             m_imageDataUrls = None, m_fileTexts = None, m_otherFileNames = None\<rparr>"
    by (simp add: validTimestamp_def)
  have q: "\<not> quotaExceeded \<lparr>ls_projects = NoItem, ls_chats = NoItem, ls_currentProject = None,
      ls_currentChat = None, quotaExceeded = False\<rparr>"
    by simp
  have r: "remoteReady ''/sites/team/Chats''
           \<lparr>sp_files = [], sp_userId = Some 7, sp_folder = Some ''/sites/team/Chats'', sp_listOk = True,
            sp_readOk = True, sp_addOk = True, sp_deleteOk = True, sp_errorText = [],
            cachedUserId = None\<rparr>
      \<and> c_id \<lparr>c_id = ''c1'', c_projectId = ''p1'', c_title = ''New chat'', c_messages = [],
            c_createdAt = ''1970-01-01T00:00:00.000Z'', c_updatedAt = ''1970-01-01T00:00:00.000Z''\<rparr> \<noteq> []
      \<and> c_projectId \<lparr>c_id = ''c1'', c_projectId = ''p1'', c_title = ''New chat'', c_messages = [],
            c_createdAt = ''1970-01-01T00:00:00.000Z'', c_updatedAt = ''1970-01-01T00:00:00.000Z''\<rparr> \<noteq> []"
    by (simp add: remoteReady_def userIdOf_def)
  from persistence_roundtrip[where P = "\<lparr>newDate = (\<lambda>s. if s = ''1970-01-01T00:00:00.000Z'' then Date 0 else InvalidDate),
             isoString = (\<lambda>t. if t = 0 then ''1970-01-01T00:00:00.000Z'' else [])\<rparr>"
      and m = "\<lparr>m_id = ''1'', m_role = user, m_content = ''hi'', m_timestamp = Date 0,
             m_imageDataUrls = None, m_fileTexts = None, m_otherFileNames = None\<rparr>"
      and ls = "\<lparr>ls_projects = NoItem, ls_chats = NoItem, ls_currentProject = None,
      ls_currentChat = None, quotaExceeded = False\<rparr>"
      and cs = "[\<lparr>c_id = ''c1'', c_projectId = ''p1'', c_title = ''New chat'', c_messages = [],
            c_createdAt = ''1970-01-01T00:00:00.000Z'', c_updatedAt = ''1970-01-01T00:00:00.000Z''\<rparr>]"
      and folderUrl = "''/sites/team/Chats''"
      and w = "\<lparr>sp_files = [], sp_userId = Some 7, sp_folder = Some ''/sites/team/Chats'', sp_listOk = True,
            sp_readOk = True, sp_addOk = True, sp_deleteOk = True, sp_errorText = [],
            cachedUserId = None\<rparr>"
      and chat = "\<lparr>c_id = ''c1'', c_projectId = ''p1'', c_title = ''New chat'', c_messages = [],
            c_createdAt = ''1970-01-01T00:00:00.000Z'', c_updatedAt = ''1970-01-01T00:00:00.000Z''\<rparr>"
      and config = "\<lparr>webAbsoluteUrl = ''https://host/sites/team'', libraryTitle = ''Chats''\<rparr>"]
    v q r
  show ?thesis by blast
qed

subsection \<open>An empty response\<close>

text \<open>
  C9. When a request has gone out, its stream is read to the end (the chunks, then \<open>done\<close>) and the
  content accumulated from the chunks is empty or only white space, the last read sets the content
  of the message with the id of the placeholder to \<open>No response.\<close>: the assistant message, still the
  last of the history, has that content when \<open>loading\<close> goes back to false.
\<close>

theorem stream_no_response:
  assumes sent: "sendMessage P pr fr regen st = (st1, Some (req, op))"
    and chunks: "runReads J (map ReadChunk cs) op st1 = (Some op', st2)"
    and blank: "trim (op_fullContent op') = []"
  shows "\<exists>st3. runReads J (map ReadChunk cs @ [ReadDone]) op st1 = (None, st3)
     \<and> messages st3 = map (\<lambda>m. if m_id m = placeholderId fr then m\<lparr>m_content := ''No response.''\<rparr> else m)
                         (messages st2)
     \<and> messages st3 \<noteq> [] \<and> m_id (last (messages st3)) = placeholderId fr
     \<and> m_role (last (messages st3)) = assistant \<and> m_content (last (messages st3)) = ''No response.''
     \<and> \<not> loading st3"
proof -
  from sendMessage_sent[OF sent] have s: "op_placeholderId op = placeholderId fr" "\<not> isAborted op st1"
    "messages st1 \<noteq> []" "m_id (last (messages st1)) = placeholderId fr"
    "m_role (last (messages st1)) = assistant" by simp_all
  from runReads_chunks[OF s(2), of J cs] chunks have k:
    "op_placeholderId op' = op_placeholderId op" "op_controller op' = op_controller op"
    "controllers st2 = controllers st1" "map m_id (messages st2) = map m_id (messages st1)"
    "map m_role (messages st2) = map m_role (messages st1)" by simp_all
  have na: "\<not> isAborted op' st2" using s(2) k by (simp add: isAborted_def)
  define st3 where "st3 = finallyBlock (setContent (placeholderId fr) ''No response.'' st2)"
  have run: "runReads J (map ReadChunk cs @ [ReadDone]) op st1 = (None, st3)"
    using runReads_append[OF chunks, of "[ReadDone]"] onRead_done_blank[OF na blank, of J] k(1) s(1)
    by (simp add: st3_def)
  have m3: "messages st3 = map (\<lambda>m. if m_id m = placeholderId fr then m\<lparr>m_content := ''No response.''\<rparr> else m)
                         (messages st2)"
    by (simp add: st3_def finallyBlock_def setContent_def)
  from last_ids[OF k(4,5) s(3)] s have l2: "messages st2 \<noteq> []" "m_id (last (messages st2)) = placeholderId fr"
    "m_role (last (messages st2)) = assistant" by simp_all
  have l3: "messages st3 \<noteq> []" "m_id (last (messages st3)) = placeholderId fr"
    "m_role (last (messages st3)) = assistant" "m_content (last (messages st3)) = ''No response.''"
    using l2 by (simp_all add: m3 last_map)
  have "\<not> loading st3" by (simp add: st3_def finallyBlock_def)
  with run m3 l3 show ?thesis by blast
qed

theorem stream_no_response_witness:
  "\<exists>st1 req op st3.
      sendMessage epochPlatform localProps someFresh False (initialState\<lparr>input := ''hi''\<rparr>) = (st1, Some (req, op))
    \<and> runReads \<lparr>errorMessageOf = (\<lambda>b. None), deltaOf = (\<lambda>d. None)\<rparr> (map ReadChunk [] @ [ReadDone]) op st1 = (None, st3)
    \<and> m_content (last (messages st3)) = ''No response.''"
proof -
  have "\<not> loading (initialState\<lparr>input := ''hi''\<rparr>)" "trim (input (initialState\<lparr>input := ''hi''\<rparr>)) \<noteq> []"
    by (simp_all add: initialState_def trim_def isWhiteSpace_def)
  from sendMessage_goes[OF trim_key this, of epochPlatform someFresh] obtain st1 req op where
    sent: "sendMessage epochPlatform localProps someFresh False (initialState\<lparr>input := ''hi''\<rparr>) = (st1, Some (req, op))"
    by blast
  have chunks: "runReads \<lparr>errorMessageOf = (\<lambda>b. None), deltaOf = (\<lambda>d. None)\<rparr> (map ReadChunk []) op st1 = (Some op, st1)"
    by simp
  have blank: "trim (op_fullContent op) = []"
    using sendMessage_sent[OF sent] by (simp add: trim_def)
  from stream_no_response[OF sent chunks blank] sent show ?thesis by blast
qed

subsection \<open>Sending attachments without text\<close>

text \<open>
  C10. A send that is not a regenerate (with the API key set and no request running, as for every
  send), whose trimmed input is empty and which has at least one attachment, is sent: the user
  message appended to the history has the content \<open>(Sent images)\<close> when an attachment has a data
  URL and \<open>(Sent files)\<close> otherwise, it carries the attachments, the assistant placeholder follows
  it, and a request goes out whose last message is the new user turn.
\<close>

theorem sendMessage_placeholder_content:
  assumes key: "trim (apiKey pr) \<noteq> []" and idle: "\<not> loading st"
    and empty: "trim (input st) = []" and att: "attachments st \<noteq> []"
  shows "\<exists>st' req op userMessage placeholder.
      sendMessage P pr fr False st = (st', Some (req, op))
    \<and> messages st' = messages st @ [userMessage, placeholder]
    \<and> m_role userMessage = user
    \<and> m_content userMessage =
         (if list_ex (\<lambda>a. truthy (dataUrl a)) (attachments st) then ''(Sent images)'' else ''(Sent files)'')
    \<and> m_imageDataUrls userMessage = undefinedIfEmpty (attachedImageDataUrls (attachments st))
    \<and> m_fileTexts userMessage = undefinedIfEmpty (attachedFileTexts (attachments st))
    \<and> m_otherFileNames userMessage = undefinedIfEmpty (attachedOtherFileNames (attachments st))
    \<and> m_role placeholder = assistant \<and> m_content placeholder = []
    \<and> req_messages req \<noteq> []
    \<and> last (req_messages req) =
         userApiMessage (buildMessageText [] (attachedFileTexts (attachments st)) (Some (attachedOtherFileNames (attachments st))))
           (attachedImageDataUrls (attachments st))"
proof -
  have hc: "attachedImageDataUrls (attachments st) \<noteq> [] \<or> attachedFileTexts (attachments st) \<noteq> []
      \<or> attachedOtherFileNames (attachments st) \<noteq> []"
    using attachment_has_content[OF att] .
  have lastreq: "buildOpenAIMessages msgs ut imgs fts others False \<noteq> []
     \<and> last (buildOpenAIMessages msgs ut imgs fts others False)
        = userApiMessage (buildMessageText ut fts (Some others)) imgs" for msgs ut imgs fts others
    by (simp add: buildOpenAIMessages_shape conversationMessages_def Let_def)
  show ?thesis
    using key idle empty hc lastreq
    unfolding sendMessage_def Let_def
    by (auto simp: attachedImageDataUrls_def filter_empty_conv list_ex_iff)
qed

theorem sendMessage_placeholder_content_witness:
  "\<exists>st' req op userMessage placeholder.
      sendMessage epochPlatform localProps someFresh False
        (initialState\<lparr>attachments :=
           [\<lparr>att_file = \<lparr>file_name = ''a.png'', file_type = ''image/png'', file_size = 3\<rparr>,
             dataUrl = Some ''data:image/png;base64,AAAA'', textContent = None, extractionError = None\<rparr>]\<rparr>)
        = (st', Some (req, op))
    \<and> messages st' = [userMessage, placeholder]
    \<and> m_content userMessage = ''(Sent images)''"
proof -
  have h: "\<not> loading (initialState\<lparr>attachments :=
           [\<lparr>att_file = \<lparr>file_name = ''a.png'', file_type = ''image/png'', file_size = 3\<rparr>,
             dataUrl = Some ''data:image/png;base64,AAAA'', textContent = None, extractionError = None\<rparr>]\<rparr>)"
    "trim (input (initialState\<lparr>attachments :=
           [\<lparr>att_file = \<lparr>file_name = ''a.png'', file_type = ''image/png'', file_size = 3\<rparr>,
             dataUrl = Some ''data:image/png;base64,AAAA'', textContent = None, extractionError = None\<rparr>]\<rparr>)) = []"
    "attachments (initialState\<lparr>attachments :=
           [\<lparr>att_file = \<lparr>file_name = ''a.png'', file_type = ''image/png'', file_size = 3\<rparr>,
             dataUrl = Some ''data:image/png;base64,AAAA'', textContent = None, extractionError = None\<rparr>]\<rparr>) \<noteq> []"
    by (simp_all add: initialState_def trim_def)
  from sendMessage_placeholder_content[OF trim_key h, of epochPlatform someFresh]
  show ?thesis
    by (auto simp: initialState_def truthy_def)
qed

end
